theory Spec2Isabelle
  imports Main
begin

section \<open>Data model of the page controller (src/index.tsx)\<close>

text \<open>
  A \<open>File\<close> as the controller sees it: its declared mime type (\<open>file.type\<close>) and what a
  \<open>FileReader\<close> produces for it. \<open>readAsDataURL\<close> ends with \<open>reader.result\<close> holding the
  data URL, or with \<open>reader.result = null\<close> when the file cannot be read; \<open>onloadend\<close> fires
  in both cases.
\<close>

record File =
  file_name :: string
  file_type :: string
  file_dataURL :: "string option"

text \<open>
  \<open>Part\<close> and its \<open>inlineData\<close> blob, of which the controller uses the fields
  \<open>inlineData.data\<close>, \<open>inlineData.mimeType\<close> and \<open>text\<close>. A field that is \<open>undefined\<close>
  is \<open>None\<close>.
\<close>

record blob =
  data :: "string option"
  mimeType :: "string option"

record part =
  inlineData :: "blob option"
  part_text :: "string option"

text \<open>The response shape read by \<open>response.candidates?.[0]?.content?.parts ?? []\<close>.\<close>

record content =
  parts :: "part list option"

record candidate =
  content :: "content option"

record response =
  candidates :: "candidate list option"

text \<open>
  The canvas: a position is what \<open>getPosition\<close> returns for a pointer event (its
  floating-point scaling is outside the model; events carry the resulting position).
  The 2D context holds the current path; the raster records every path that
  \<open>ctx.stroke()\<close> has painted since the last full \<open>clearRect\<close>.
\<close>

type_synonym point = "int \<times> int"
type_synonym raster = "point list list"

text \<open>
  What the generation handler does to the outside, in program order: \<open>alert\<close>,
  \<open>console.error\<close>, writes of \<open>generateBtn.disabled\<close>, \<open>classList\<close> additions and removals
  of \<open>hidden\<close> on the three display elements, \<open>FileReader.readAsDataURL\<close>,
  \<open>canvas.toDataURL\<close>, \<open>ai.models.generateContent\<close>, and every \<open>await\<close> of the handler.
\<close>

datatype element = Placeholder | ResultImage | Loading

datatype effect =
    Alert string
  | ConsoleError string
  | SetGenerateDisabled bool
  | SetHidden element bool
  | ReadAsDataURL File
  | ToDataURL
  | GenerateContent "part list"
  | Await

text \<open>How an awaited promise ends: with a value, with a thrown error, or never.\<close>

datatype 'a promise = Fulfilled 'a | Rejected string | NeverSettles

text \<open>
  The module-level variables (\<open>sketchFile\<close>, \<open>modelFile\<close>, \<open>isDrawing\<close>, \<open>hasDrawn\<close>), the
  canvas, and the properties of the DOM elements the controller reads or writes.
  A \<open>disabled\<close> or \<open>hidden\<close> flag says that the element's class list holds that class;
  a preview's \<open>src\<close> is the file its object URL was created for.
\<close>

record state =
  sketchFile :: "File option"
  modelFile :: "File option"
  isDrawing :: bool
  hasDrawn :: bool
  raster :: raster
  path :: "point list"
  sketchUploadFiles :: "File list"
  modelUploadFiles :: "File list"
  sketchPreviewSrc :: "File option"
  sketchPreviewDisplay :: string
  modelPreviewSrc :: "File option"
  modelPreviewDisplay :: string
  canvasDisabled :: bool
  sketchUploadDisabled :: bool
  modelTypeDisabled :: bool
  modelTypeValue :: string
  designDescriptionValue :: string
  realismSliderValue :: string
  realismValueText :: string
  generateBtnDisabled :: bool
  placeholderHidden :: bool
  placeholderHTML :: string
  loadingHidden :: bool
  resultImageHidden :: bool
  resultImageSrc :: string
  trace :: "effect list"

section \<open>Utility functions\<close>

text \<open>\<open>str.split(sep)\<close> of JavaScript for a one-character separator.\<close>

fun split :: "char \<Rightarrow> string \<Rightarrow> string list" where
  "split c [] = [[]]"
| "split c (x # xs) =
     (if x = c then [] # split c xs
      else (case split c xs of
              [] \<Rightarrow> [[x]]
            | y # ys \<Rightarrow> (x # y) # ys))"

text \<open>\<open>arr[1]\<close>: \<open>undefined\<close> when the array has fewer than two elements.\<close>

definition second :: "'a list \<Rightarrow> 'a option" where
  "second xs = (case xs of _ # y # _ \<Rightarrow> Some y | _ \<Rightarrow> None)"

text \<open>
  \<open>fileToGenerativePart\<close> (lines 36-48). The inner promise is built with \<open>resolve\<close> only,
  called from \<open>onloadend\<close> with \<open>reader.result.split(',')[1]\<close>. When the read fails,
  \<open>reader.result\<close> is \<open>null\<close> and the \<open>split\<close> call throws inside the callback, before
  \<open>resolve\<close>: the throw is outside the promise executor and the async function, so the
  promise stays pending.
\<close>

definition fileToGenerativePart :: "File \<Rightarrow> part promise" where
  "fileToGenerativePart f =
     (case file_dataURL f of
        None \<Rightarrow> NeverSettles
      | Some url \<Rightarrow>
          Fulfilled \<lparr>inlineData = Some \<lparr>data = second (split CHR '','' url),
                                       mimeType = Some (file_type f)\<rparr>,
                     part_text = None\<rparr>)"

text \<open>
  \<open>canvasToGenerativePart\<close> (lines 50-59), given the data URL that
  \<open>canvas.toDataURL('image/png')\<close> returned.
\<close>

definition canvasToGenerativePart :: "string \<Rightarrow> part" where
  "canvasToGenerativePart dataUrl =
     \<lparr>inlineData = Some \<lparr>data = second (split CHR '','' dataUrl),
                         mimeType = Some ''image/png''\<rparr>,
      part_text = None\<rparr>"

text \<open>\<open>updateUIState\<close> (lines 61-81).\<close>

definition updateUIState :: "state \<Rightarrow> state" where
  "updateUIState s =
     s\<lparr>canvasDisabled := (sketchFile s \<noteq> None),
       sketchUploadDisabled := hasDrawn s,
       modelTypeDisabled := (modelFile s \<noteq> None)\<rparr>"

section \<open>Event listeners\<close>

text \<open>\<open>clearCanvas\<close> (lines 164-172); the \<open>clearRect\<close> covers the whole canvas.\<close>

definition clearCanvas :: "state \<Rightarrow> state" where
  "clearCanvas s =
     updateUIState
       (s\<lparr>raster := [],
          hasDrawn := False,
          sketchFile := None,
          sketchUploadFiles := [],
          sketchPreviewDisplay := ''none''\<rparr>)"

text \<open>The \<open>change\<close> listener of \<open>sketchUploadInput\<close> (lines 86-94).\<close>

definition sketchUpload_change :: "state \<Rightarrow> state" where
  "sketchUpload_change s =
     (case sketchUploadFiles s of
        [] \<Rightarrow> s
      | f # _ \<Rightarrow>
          updateUIState
            (clearCanvas
               (s\<lparr>sketchFile := Some f,
                  sketchPreviewSrc := Some f,
                  sketchPreviewDisplay := ''block''\<rparr>)))"

text \<open>The \<open>change\<close> listener of \<open>modelUploadInput\<close> (lines 97-104).\<close>

definition modelUpload_change :: "state \<Rightarrow> state" where
  "modelUpload_change s =
     (case modelUploadFiles s of
        [] \<Rightarrow> s
      | f # _ \<Rightarrow>
          updateUIState
            (s\<lparr>modelFile := Some f,
               modelPreviewSrc := Some f,
               modelPreviewDisplay := ''block''\<rparr>))"

text \<open>The \<open>input\<close> listener of \<open>realismSlider\<close> (lines 107-109).\<close>

definition realismSlider_input :: "state \<Rightarrow> state" where
  "realismSlider_input s = s\<lparr>realismValueText := realismSliderValue s @ ''%''\<rparr>"

text \<open>\<open>startDrawing\<close>, \<open>draw\<close>, \<open>stopDrawing\<close> (lines 131-152).\<close>

definition startDrawing :: "point \<Rightarrow> state \<Rightarrow> state" where
  "startDrawing pos s =
     (if sketchFile s \<noteq> None then s
      else (updateUIState (s\<lparr>isDrawing := True, hasDrawn := True\<rparr>))\<lparr>path := [pos]\<rparr>)"

definition draw :: "point \<Rightarrow> state \<Rightarrow> state" where
  "draw pos s =
     (if \<not> isDrawing s \<or> sketchFile s \<noteq> None then s
      else s\<lparr>path := path s @ [pos], raster := raster s @ [path s @ [pos]]\<rparr>)"

definition stopDrawing :: "state \<Rightarrow> state" where
  "stopDrawing s = s\<lparr>isDrawing := False\<rparr>"

text \<open>
  The events the page delivers to these listeners, and the user's edits of the controls
  that have no listener. A \<open>change\<close> or \<open>input\<close> event arrives after the browser has
  updated the control. \<open>mousedown\<close> and \<open>touchstart\<close> are \<open>PointerDown\<close>, \<open>mousemove\<close> and
  \<open>touchmove\<close> are \<open>PointerMove\<close>, \<open>mouseup\<close>, \<open>mouseleave\<close> and \<open>touchend\<close> are
  \<open>PointerUp\<close>.
\<close>

datatype ui_event =
    SketchUploadChange "File list"
  | ModelUploadChange "File list"
  | RealismInput string
  | PointerDown point
  | PointerMove point
  | PointerUp
  | ClearClick
  | EditDescription string
  | SelectModelType string

fun handle_ui :: "ui_event \<Rightarrow> state \<Rightarrow> state" where
  "handle_ui (SketchUploadChange fs) s = sketchUpload_change (s\<lparr>sketchUploadFiles := fs\<rparr>)"
| "handle_ui (ModelUploadChange fs) s = modelUpload_change (s\<lparr>modelUploadFiles := fs\<rparr>)"
| "handle_ui (RealismInput v) s = realismSlider_input (s\<lparr>realismSliderValue := v\<rparr>)"
| "handle_ui (PointerDown pos) s = startDrawing pos s"
| "handle_ui (PointerMove pos) s = draw pos s"
| "handle_ui PointerUp s = stopDrawing s"
| "handle_ui ClearClick s = clearCanvas s"
| "handle_ui (EditDescription d) s = s\<lparr>designDescriptionValue := d\<rparr>"
| "handle_ui (SelectModelType t) s = s\<lparr>modelTypeValue := t\<rparr>"

fun run_ui :: "ui_event list \<Rightarrow> state \<Rightarrow> state" where
  "run_ui [] s = s"
| "run_ui (e # es) s = run_ui es (handle_ui e s)"

section \<open>Main generation logic\<close>

text \<open>
  What the surroundings answer to one run of \<open>handleGenerateClick\<close>: whether
  \<open>new GoogleGenAI\<close> throws, the data URL \<open>canvas.toDataURL\<close> gives for a raster, how the
  promise of \<open>generateContent\<close> ends, and the listeners that run while the handler is
  suspended at each of its three \<open>await\<close>s. The trigger is disabled during a run, so a
  second click is not among them.
\<close>

record env =
  client_error :: "string option"
  toDataURL :: "raster \<Rightarrow> string"
  during_sketch_read :: "ui_event list"
  during_model_read :: "ui_event list"
  api_result :: "response promise"
  during_api_call :: "ui_event list"

text \<open>Writes that are recorded in the trace.\<close>

definition emit :: "effect \<Rightarrow> state \<Rightarrow> state" where
  "emit e s = s\<lparr>trace := trace s @ [e]\<rparr>"

definition set_generate_disabled :: "bool \<Rightarrow> state \<Rightarrow> state" where
  "set_generate_disabled b s = emit (SetGenerateDisabled b) (s\<lparr>generateBtnDisabled := b\<rparr>)"

fun set_hidden :: "element \<Rightarrow> bool \<Rightarrow> state \<Rightarrow> state" where
  "set_hidden Placeholder b s = emit (SetHidden Placeholder b) (s\<lparr>placeholderHidden := b\<rparr>)"
| "set_hidden ResultImage b s = emit (SetHidden ResultImage b) (s\<lparr>resultImageHidden := b\<rparr>)"
| "set_hidden Loading b s = emit (SetHidden Loading b) (s\<lparr>loadingHidden := b\<rparr>)"

text \<open>
  A stretch of the \<open>try\<close> block ends by going on with a value, by throwing an error with
  a message, or suspended for good at an \<open>await\<close> whose promise never settles.
\<close>

datatype 'a step = Next 'a state | Throw string state | Stuck state

definition bind_step :: "'a step \<Rightarrow> ('a \<Rightarrow> state \<Rightarrow> 'b step) \<Rightarrow> 'b step" where
  "bind_step m k = (case m of Next v s \<Rightarrow> k v s | Throw msg s \<Rightarrow> Throw msg s | Stuck s \<Rightarrow> Stuck s)"

text \<open>
  \<open>await p\<close>: the handler is suspended, the listeners of the events that arrive meanwhile
  run, and the handler resumes according to how \<open>p\<close> ended.
\<close>

definition await :: "'a promise \<Rightarrow> ui_event list \<Rightarrow> state \<Rightarrow> 'a step" where
  "await p es s =
     (let s' = run_ui es (emit Await s)
      in case p of
           Fulfilled v \<Rightarrow> Next v s'
         | Rejected msg \<Rightarrow> Throw msg s'
         | NeverSettles \<Rightarrow> Stuck s')"

text \<open>Step 2, lines 196-200.\<close>

definition add_sketch_part :: "env \<Rightarrow> part list \<Rightarrow> state \<Rightarrow> part list step" where
  "add_sketch_part en ps s =
     (case sketchFile s of
        Some f \<Rightarrow>
          bind_step (await (fileToGenerativePart f) (during_sketch_read en) (emit (ReadAsDataURL f) s))
            (\<lambda>p s'. Next (ps @ [p]) s')
      | None \<Rightarrow>
          if hasDrawn s
          then Next (ps @ [canvasToGenerativePart (toDataURL en (raster s))]) (emit ToDataURL s)
          else Next ps s)"

text \<open>Step 3, lines 203-205.\<close>

definition add_model_part :: "env \<Rightarrow> part list \<Rightarrow> state \<Rightarrow> part list step" where
  "add_model_part en ps s =
     (case modelFile s of
        Some f \<Rightarrow>
          bind_step (await (fileToGenerativePart f) (during_model_read en) (emit (ReadAsDataURL f) s))
            (\<lambda>p s'. Next (ps @ [p]) s')
      | None \<Rightarrow> Next ps s)"

text \<open>Step 4, lines 208-220. The template literal keeps its line breaks and indentation.\<close>

definition modelInfo :: "state \<Rightarrow> string" where
  "modelInfo s =
     (if modelFile s \<noteq> None then ''the uploaded model''
      else ''a '' @ modelTypeValue s @ '' model'')"

definition userDescription :: "state \<Rightarrow> string" where
  "userDescription s =
     (if designDescriptionValue s = [] then ''a stunning fashion design''
      else designDescriptionValue s)"

definition textPrompt :: "string \<Rightarrow> string \<Rightarrow> string \<Rightarrow> string" where
  "textPrompt info description realism =
     [CHR 0x0A] @
     ''          Transform the provided clothing sketch into a hyperrealistic, photorealistic runway photo.'' @
     [CHR 0x0A] @
     ''          Have '' @ info @ '' wear this design.'' @
     [CHR 0x0A] @
     ''          Render the fabric, shimmer, style, and other details exactly as described in the following text: '' @
     [CHR 0x22] @ description @ [CHR 0x22] @ ''.'' @
     [CHR 0x0A] @
     ''          The realism level must be '' @ realism @ ''%.'' @
     [CHR 0x0A] @
     ''          Ensure the final image looks like high-quality professional photography, not an AI-generated image.'' @
     [CHR 0x0A] @
     ''          The output must be a single, cohesive, photorealistic image of the new design on the model.'' @
     [CHR 0x0A] @
     ''        ''"

definition text_part :: "state \<Rightarrow> part" where
  "text_part s =
     \<lparr>inlineData = None,
      part_text = Some (textPrompt (modelInfo s) (userDescription s) (realismSliderValue s))\<rparr>"

text \<open>Step 5, lines 223-229.\<close>

definition generateContent :: "env \<Rightarrow> part list \<Rightarrow> state \<Rightarrow> response step" where
  "generateContent en ps s = await (api_result en) (during_api_call en) (emit (GenerateContent ps) s)"

text \<open>
  Step 6, lines 232-244. A template literal prints an \<open>undefined\<close> value as the word
  \<open>undefined\<close>.
\<close>

definition response_parts :: "response \<Rightarrow> part list" where
  "response_parts r =
     (case candidates r of
        None \<Rightarrow> []
      | Some [] \<Rightarrow> []
      | Some (c # _) \<Rightarrow>
          (case content c of
             None \<Rightarrow> []
           | Some ct \<Rightarrow> (case parts ct of None \<Rightarrow> [] | Some ps \<Rightarrow> ps)))"

definition js_string :: "string option \<Rightarrow> string" where
  "js_string v = (case v of None \<Rightarrow> ''undefined'' | Some x \<Rightarrow> x)"

fun scan_parts :: "part list \<Rightarrow> state \<Rightarrow> bool \<times> state" where
  "scan_parts [] s = (False, s)"
| "scan_parts (p # ps) s =
     (case inlineData p of
        Some b \<Rightarrow>
          (True,
           set_hidden ResultImage False
             (s\<lparr>resultImageSrc := ''data:'' @ js_string (mimeType b) @ '';base64,'' @ js_string (data b)\<rparr>))
      | None \<Rightarrow> scan_parts ps s)"

definition process_response :: "response \<Rightarrow> state \<Rightarrow> unit step" where
  "process_response r s =
     (case scan_parts (response_parts r) s of
        (True, s') \<Rightarrow> Next () s'
      | (False, s') \<Rightarrow> Throw ''API response did not contain an image.'' s')"

text \<open>
  The \<open>try\<close> block, lines 190-244: \<open>build_parts\<close> is lines 193-220 (steps 2 to 4), which
  leave the \<open>parts\<close> array that step 5 submits.
\<close>

definition build_parts :: "env \<Rightarrow> state \<Rightarrow> part list step" where
  "build_parts en s =
     bind_step (add_sketch_part en [] s) (\<lambda>ps s1.
     bind_step (add_model_part en ps s1) (\<lambda>ps s2.
     Next (ps @ [text_part s2]) s2))"

definition try_block :: "env \<Rightarrow> state \<Rightarrow> unit step" where
  "try_block en s =
     (case client_error en of
        Some msg \<Rightarrow> Throw msg s
      | None \<Rightarrow>
          bind_step (build_parts en s) (\<lambda>ps s2.
          bind_step (generateContent en ps s2) (\<lambda>r s3.
          process_response r s3)))"

text \<open>The \<open>catch\<close> block, lines 246-249, and the \<open>finally\<close> block, lines 250-254.\<close>

definition error_html :: "string \<Rightarrow> string" where
  "error_html msg =
     ''<p style='' @ [CHR 0x22] @ ''color: red;'' @ [CHR 0x22] @
     ''>An error occurred. Please try again.<br><small>'' @ msg @ ''</small></p>''"

definition catch_block :: "string \<Rightarrow> state \<Rightarrow> state" where
  "catch_block msg s =
     (set_hidden Placeholder False (emit (ConsoleError msg) s))\<lparr>placeholderHTML := error_html msg\<rparr>"

definition finally_block :: "state \<Rightarrow> state" where
  "finally_block s = set_generate_disabled False (set_hidden Loading True s)"

text \<open>Step 1, lines 184-188.\<close>

definition set_loading_state :: "state \<Rightarrow> state" where
  "set_loading_state s =
     set_hidden Loading False
       (set_hidden ResultImage True
          (set_hidden Placeholder True
             (set_generate_disabled True s)))"

text \<open>
  \<open>handleGenerateClick\<close> (lines 178-255): the promise it returns is fulfilled (\<open>Done\<close>, with
  the state it leaves), or it never settles (\<open>Hung\<close>, with the state at the \<open>await\<close>
  where it stays).
\<close>

datatype outcome = Done state | Hung state

definition handleGenerateClick :: "env \<Rightarrow> state \<Rightarrow> outcome" where
  "handleGenerateClick en s =
     (if sketchFile s = None \<and> \<not> hasDrawn s
      then Done (emit (Alert ''Please upload or draw a sketch.'') s)
      else (case try_block en (set_loading_state s) of
              Next _ s' \<Rightarrow> Done (finally_block s')
            | Throw msg s' \<Rightarrow> Done (finally_block (catch_block msg s'))
            | Stuck s' \<Rightarrow> Hung s'))"

section \<open>Sessions\<close>

text \<open>
  A session is the module's initialisation (lines 26-29 and 260) on the page as loaded,
  followed by events: those of the listeners, and clicks on the trigger. A click stands
  for the whole run of \<open>handleGenerateClick\<close> it starts, with the listeners that run during
  its suspensions; after a run that never settles the session goes on from the state at
  the \<open>await\<close> where the run stays. Clicks are not restricted to states in which the
  trigger is enabled.
\<close>

fun final_state :: "outcome \<Rightarrow> state" where
  "final_state (Done s) = s"
| "final_state (Hung s) = s"

datatype event = UI ui_event | GenerateClick env

fun handle :: "event \<Rightarrow> state \<Rightarrow> state" where
  "handle (UI e) s = handle_ui e s"
| "handle (GenerateClick en) s = final_state (handleGenerateClick en s)"

fun run :: "event list \<Rightarrow> state \<Rightarrow> state" where
  "run [] s = s"
| "run (e # es) s = run es (handle e s)"

definition init :: "state \<Rightarrow> state" where
  "init page =
     updateUIState
       (page\<lparr>sketchFile := None, modelFile := None, isDrawing := False, hasDrawn := False\<rparr>)"

text \<open>The effects a run of the handler adds to the trace of the state it starts in.\<close>

definition new_effects :: "state \<Rightarrow> state \<Rightarrow> effect list" where
  "new_effects s s' = drop (length (trace s)) (trace s')"

section \<open>Example inputs\<close>

text \<open>
  A page as loaded, three files (the last one cannot be read), parts of a response, and
  surroundings in which the description is edited during the read of the model file and
  the slider is moved during the call; then states and sessions built from them.
\<close>

definition example_page :: state where
  "example_page =
     \<lparr>sketchFile = None, modelFile = None, isDrawing = False, hasDrawn = False,
      raster = [], path = [],
      sketchUploadFiles = [], modelUploadFiles = [],
      sketchPreviewSrc = None, sketchPreviewDisplay = ''none'',
      modelPreviewSrc = None, modelPreviewDisplay = ''none'',
      canvasDisabled = False, sketchUploadDisabled = False, modelTypeDisabled = False,
      modelTypeValue = ''female'', designDescriptionValue = [],
      realismSliderValue = ''50'', realismValueText = ''50%'',
      generateBtnDisabled = False,
      placeholderHidden = False, placeholderHTML = ''<p>Your design will appear here</p>'',
      loadingHidden = True, resultImageHidden = True, resultImageSrc = [],
      trace = []\<rparr>"

definition sketch_png :: File where
  "sketch_png =
     \<lparr>file_name = ''sketch.png'', file_type = ''image/png'',
      file_dataURL = Some ''data:image/png;base64,AAAA''\<rparr>"

definition model_jpg :: File where
  "model_jpg =
     \<lparr>file_name = ''model.jpg'', file_type = ''image/jpeg'',
      file_dataURL = Some ''data:image/jpeg;base64,BBBB''\<rparr>"

definition unreadable_jpg :: File where
  "unreadable_jpg =
     \<lparr>file_name = ''gone.jpg'', file_type = ''image/jpeg'', file_dataURL = None\<rparr>"

definition image_part :: part where
  "image_part =
     \<lparr>inlineData = Some \<lparr>data = Some ''CCCC'', mimeType = Some ''image/png''\<rparr>, part_text = None\<rparr>"

definition caption_part :: part where
  "caption_part = \<lparr>inlineData = None, part_text = Some ''Here is the photo.''\<rparr>"

definition response_of :: "part list \<Rightarrow> response" where
  "response_of ps = \<lparr>candidates = Some [\<lparr>content = Some \<lparr>parts = Some ps\<rparr>\<rparr>]\<rparr>"

definition example_env :: "response promise \<Rightarrow> env" where
  "example_env p =
     \<lparr>client_error = None,
      toDataURL = (\<lambda>r. ''data:image/png;base64,DDDD''),
      during_sketch_read = [],
      during_model_read = [EditDescription ''red silk gown''],
      api_result = p,
      during_api_call = [RealismInput ''80'']\<rparr>"

definition drawn_page :: state where
  "drawn_page = run_ui [PointerDown (1, 1), PointerMove (2, 2), PointerUp] (init example_page)"

definition unreadable_model_page :: state where
  "unreadable_model_page = handle_ui (ModelUploadChange [unreadable_jpg]) drawn_page"

definition model_page :: state where
  "model_page = handle_ui (ModelUploadChange [model_jpg]) drawn_page"

definition both_page :: state where
  "both_page = drawn_page\<lparr>sketchFile := Some sketch_png\<rparr>"

definition session :: "event list" where
  "session =
     [UI (PointerDown (1, 1)), UI (PointerMove (2, 2)), UI PointerUp,
      UI (SketchUploadChange [sketch_png]),
      UI (PointerDown (3, 3)), UI (PointerMove (4, 4)), UI PointerUp,
      GenerateClick (example_env (Fulfilled (response_of [caption_part, image_part])))]"

definition model_session :: "event list" where
  "model_session =
     [UI (SelectModelType ''male''), UI ClearClick, UI (ModelUploadChange []),
      UI (PointerDown (5, 5)), UI (PointerMove (6, 6)), UI PointerUp,
      GenerateClick (example_env (Rejected ''offline''))]"

section \<open>Notions used in the proofs\<close>

fun state_of :: "'a step \<Rightarrow> state" where
  "state_of (Next v s) = s"
| "state_of (Throw msg s) = s"
| "state_of (Stuck s) = s"

text \<open>
  The effects of one run of the handler, stretch by stretch: entering the busy state, the
  \<open>catch\<close> and \<open>finally\<close> blocks after a throw, the two encoding steps, and what follows
  the encoding steps by the way they and the call end.
\<close>

definition busy_effects :: "effect list" where
  "busy_effects =
     [SetGenerateDisabled True, SetHidden Placeholder True,
      SetHidden ResultImage True, SetHidden Loading False]"

definition failure_effects :: "string \<Rightarrow> effect list" where
  "failure_effects msg =
     [ConsoleError msg, SetHidden Placeholder False,
      SetHidden Loading True, SetGenerateDisabled False]"

definition sketch_effects :: "state \<Rightarrow> effect list" where
  "sketch_effects s =
     (case sketchFile s of
        Some f \<Rightarrow> [ReadAsDataURL f, Await]
      | None \<Rightarrow> if hasDrawn s then [ToDataURL] else [])"

definition model_effects :: "state \<Rightarrow> effect list" where
  "model_effects s = (case modelFile s of Some f \<Rightarrow> [ReadAsDataURL f, Await] | None \<Rightarrow> [])"

definition build_effects :: "env \<Rightarrow> state \<Rightarrow> effect list" where
  "build_effects en s =
     sketch_effects s @
     (case add_sketch_part en [] s of Next ps s1 \<Rightarrow> model_effects s1 | _ \<Rightarrow> [])"

definition settle_effects :: "env \<Rightarrow> state \<Rightarrow> effect list" where
  "settle_effects en s =
     (case api_result en of
        Fulfilled r \<Rightarrow>
          (if fst (scan_parts (response_parts r) s)
           then [SetHidden ResultImage False, SetHidden Loading True, SetGenerateDisabled False]
           else failure_effects ''API response did not contain an image.'')
      | Rejected msg \<Rightarrow> failure_effects msg
      | NeverSettles \<Rightarrow> [])"

fun after_build :: "env \<Rightarrow> part list step \<Rightarrow> effect list" where
  "after_build en (Next ps s) =
     [GenerateContent ps, Await] @
     settle_effects en (run_ui (during_api_call en) (emit Await (emit (GenerateContent ps) s)))"
| "after_build en (Throw msg s) = failure_effects msg"
| "after_build en (Stuck s) = []"

definition run_effects :: "env \<Rightarrow> state \<Rightarrow> effect list" where
  "run_effects en s =
     (if sketchFile s = None \<and> \<not> hasDrawn s
      then [Alert ''Please upload or draw a sketch.'']
      else busy_effects @
           (case client_error en of
              Some msg \<Rightarrow> failure_effects msg
            | None \<Rightarrow>
                build_effects en (set_loading_state s) @
                after_build en (build_parts en (set_loading_state s))))"

text \<open>
  The state without what the generation handler writes: the trigger, the three display
  elements and the trace are reset, everything the listeners read or write is kept.
\<close>

definition inputs :: "state \<Rightarrow> state" where
  "inputs s =
     s\<lparr>generateBtnDisabled := False, placeholderHidden := False, placeholderHTML := [],
       loadingHidden := False, resultImageHidden := False, resultImageSrc := [],
       trace := []\<rparr>"

section \<open>Unfolding rules\<close>

lemmas ui_defs = sketchUpload_change_def modelUpload_change_def realismSlider_input_def
  startDrawing_def draw_def stopDrawing_def clearCanvas_def updateUIState_def

lemmas gen_defs = handleGenerateClick_def try_block_def build_parts_def bind_step_def
  add_sketch_part_def add_model_part_def await_def fileToGenerativePart_def
  canvasToGenerativePart_def generateContent_def process_response_def response_parts_def
  catch_block_def finally_block_def set_loading_state_def set_generate_disabled_def
  emit_def new_effects_def text_part_def modelInfo_def userDescription_def second_def
  js_string_def

lemmas page_defs = example_page_def init_def drawn_page_def example_env_def

section \<open>The listeners leave the display and the trace alone\<close>

lemma handle_ui_display:
  "trace (handle_ui e s) = trace s"
  "generateBtnDisabled (handle_ui e s) = generateBtnDisabled s"
  "placeholderHidden (handle_ui e s) = placeholderHidden s"
  "placeholderHTML (handle_ui e s) = placeholderHTML s"
  "loadingHidden (handle_ui e s) = loadingHidden s"
  "resultImageHidden (handle_ui e s) = resultImageHidden s"
  "resultImageSrc (handle_ui e s) = resultImageSrc s"
  by (cases e; simp add: ui_defs split: list.split)+

lemma run_ui_display [simp]:
  "trace (run_ui es s) = trace s"
  "generateBtnDisabled (run_ui es s) = generateBtnDisabled s"
  "placeholderHidden (run_ui es s) = placeholderHidden s"
  "placeholderHTML (run_ui es s) = placeholderHTML s"
  "loadingHidden (run_ui es s) = loadingHidden s"
  "resultImageHidden (run_ui es s) = resultImageHidden s"
  "resultImageSrc (run_ui es s) = resultImageSrc s"
  by (induction es arbitrary: s; simp add: handle_ui_display)+

lemma run_ui_append: "run_ui (es @ es') s = run_ui es' (run_ui es s)"
  by (induction es arbitrary: s) simp_all

section \<open>What the writes of the handler leave alone\<close>

lemma trace_emit [simp]: "trace (emit x s) = trace s @ [x]"
  by (simp add: emit_def)

lemma trace_set_hidden [simp]: "trace (set_hidden el b s) = trace s @ [SetHidden el b]"
  by (cases el) simp_all

lemma trace_set_generate_disabled [simp]:
  "trace (set_generate_disabled b s) = trace s @ [SetGenerateDisabled b]"
  by (simp add: set_generate_disabled_def)

lemma emit_display [simp]:
  "generateBtnDisabled (emit x s) = generateBtnDisabled s"
  "placeholderHidden (emit x s) = placeholderHidden s"
  "placeholderHTML (emit x s) = placeholderHTML s"
  "loadingHidden (emit x s) = loadingHidden s"
  "resultImageHidden (emit x s) = resultImageHidden s"
  "resultImageSrc (emit x s) = resultImageSrc s"
  by (simp_all add: emit_def)

lemma modelFile_emit [simp]: "modelFile (emit x s) = modelFile s"
  by (simp add: emit_def)

lemma set_loading_state_fields [simp]:
  "sketchFile (set_loading_state s) = sketchFile s"
  "modelFile (set_loading_state s) = modelFile s"
  "hasDrawn (set_loading_state s) = hasDrawn s"
  "raster (set_loading_state s) = raster s"
  by (simp_all add: set_loading_state_def set_generate_disabled_def emit_def)

lemma set_loading_state_display:
  "generateBtnDisabled (set_loading_state s)"
  "placeholderHidden (set_loading_state s)"
  "placeholderHTML (set_loading_state s) = placeholderHTML s"
  "\<not> loadingHidden (set_loading_state s)"
  "resultImageHidden (set_loading_state s)"
  "resultImageSrc (set_loading_state s) = resultImageSrc s"
  by (simp_all add: set_loading_state_def set_generate_disabled_def)

section \<open>The handler, case by case\<close>

lemma handleGenerateClick_blocked:
  assumes "sketchFile s = None" "\<not> hasDrawn s"
  shows "handleGenerateClick en s = Done (emit (Alert ''Please upload or draw a sketch.'') s)"
  using assms by (simp add: handleGenerateClick_def)

lemma handleGenerateClick_no_client:
  assumes "sketchFile s \<noteq> None \<or> hasDrawn s" "client_error en = Some msg"
  shows "handleGenerateClick en s = Done (finally_block (catch_block msg (set_loading_state s)))"
  using assms by (auto simp add: handleGenerateClick_def try_block_def)

lemma handleGenerateClick_build_stuck:
  assumes "sketchFile s \<noteq> None \<or> hasDrawn s" "client_error en = None"
    "build_parts en (set_loading_state s) = Stuck s1"
  shows "handleGenerateClick en s = Hung s1"
  using assms by (auto simp add: handleGenerateClick_def try_block_def bind_step_def)

lemma handleGenerateClick_build_throw:
  assumes "sketchFile s \<noteq> None \<or> hasDrawn s" "client_error en = None"
    "build_parts en (set_loading_state s) = Throw msg s1"
  shows "handleGenerateClick en s = Done (finally_block (catch_block msg s1))"
  using assms by (auto simp add: handleGenerateClick_def try_block_def bind_step_def)

lemma handleGenerateClick_submit:
  assumes "sketchFile s \<noteq> None \<or> hasDrawn s" "client_error en = None"
    "build_parts en (set_loading_state s) = Next ps s2"
  shows "handleGenerateClick en s =
     (case api_result en of
        Fulfilled r \<Rightarrow>
          (case scan_parts (response_parts r)
                  (run_ui (during_api_call en) (emit Await (emit (GenerateContent ps) s2))) of
             (True, s4) \<Rightarrow> Done (finally_block s4)
           | (False, s4) \<Rightarrow>
               Done (finally_block (catch_block ''API response did not contain an image.'' s4)))
      | Rejected msg \<Rightarrow>
          Done (finally_block (catch_block msg
                  (run_ui (during_api_call en) (emit Await (emit (GenerateContent ps) s2)))))
      | NeverSettles \<Rightarrow>
          Hung (run_ui (during_api_call en) (emit Await (emit (GenerateContent ps) s2))))"
  using assms
  by (auto simp add: handleGenerateClick_def try_block_def bind_step_def generateContent_def
        await_def process_response_def split: promise.split prod.split bool.split)

lemma settled_by_finally:
  assumes pre: "sketchFile s \<noteq> None \<or> hasDrawn s"
      and d: "handleGenerateClick en s = Done s'"
  shows "\<exists>x. s' = finally_block x"
  using assms
  by (auto simp add: handleGenerateClick_def split: step.splits)

lemma add_sketch_part_Next:
  assumes "add_sketch_part en ps s = Next ps' s1"
  shows "case sketchFile s of
           Some f \<Rightarrow>
             (\<exists>p. fileToGenerativePart f = Fulfilled p \<and> ps' = ps @ [p]) \<and>
             s1 = run_ui (during_sketch_read en) (emit Await (emit (ReadAsDataURL f) s))
         | None \<Rightarrow>
             if hasDrawn s
             then ps' = ps @ [canvasToGenerativePart (toDataURL en (raster s))] \<and> s1 = emit ToDataURL s
             else ps' = ps \<and> s1 = s"
  using assms
  by (auto simp add: add_sketch_part_def bind_step_def await_def Let_def
           split: option.splits promise.splits if_splits)

lemma add_model_part_Next:
  assumes "add_model_part en ps s = Next ps' s1"
  shows "case modelFile s of
           Some f \<Rightarrow>
             (\<exists>p. fileToGenerativePart f = Fulfilled p \<and> ps' = ps @ [p]) \<and>
             s1 = run_ui (during_model_read en) (emit Await (emit (ReadAsDataURL f) s))
         | None \<Rightarrow> ps' = ps \<and> s1 = s"
  using assms
  by (auto simp add: add_model_part_def bind_step_def await_def Let_def
           split: option.splits promise.splits if_splits)

lemma build_parts_Next:
  assumes "build_parts en s = Next ps s2"
  shows "\<exists>ps1 s1 ps2. add_sketch_part en [] s = Next ps1 s1 \<and>
           add_model_part en ps1 s1 = Next ps2 s2 \<and> ps = ps2 @ [text_part s2]"
proof (cases "add_sketch_part en [] s")
  case (Next ps1 s1)
  show ?thesis
  proof (cases "add_model_part en ps1 s1")
    case m: (Next ps2 s2')
    with Next assms show ?thesis by (auto simp add: build_parts_def bind_step_def)
  next
    case (Throw msg s')
    with Next assms show ?thesis by (simp add: build_parts_def bind_step_def)
  next
    case (Stuck s')
    with Next assms show ?thesis by (simp add: build_parts_def bind_step_def)
  qed
next
  case (Throw msg s')
  with assms show ?thesis by (simp add: build_parts_def bind_step_def)
next
  case (Stuck s')
  with assms show ?thesis by (simp add: build_parts_def bind_step_def)
qed

lemma state_of_build_parts:
  "state_of (build_parts en s) =
     (case add_sketch_part en [] s of
        Next ps s1 \<Rightarrow> state_of (add_model_part en ps s1)
      | Throw msg s1 \<Rightarrow> s1
      | Stuck s1 \<Rightarrow> s1)"
proof (cases "add_sketch_part en [] s")
  case (Next ps s1)
  then show ?thesis
    by (cases "add_model_part en ps s1") (simp_all add: build_parts_def bind_step_def)
qed (simp_all add: build_parts_def bind_step_def)

section \<open>The trace of a run\<close>

lemma trace_set_loading_state:
  "trace (set_loading_state s) = trace s @ busy_effects"
  by (simp add: set_loading_state_def busy_effects_def)

lemma trace_finally_block:
  "trace (finally_block s) = trace s @ [SetHidden Loading True, SetGenerateDisabled False]"
  by (simp add: finally_block_def)

lemma trace_catch_block:
  "trace (catch_block msg s) = trace s @ [ConsoleError msg, SetHidden Placeholder False]"
  by (simp add: catch_block_def)

lemmas trace_failure = trace_finally_block trace_catch_block failure_effects_def

lemma trace_add_sketch_part:
  "trace (state_of (add_sketch_part en ps s)) = trace s @ sketch_effects s"
  by (simp add: add_sketch_part_def bind_step_def await_def fileToGenerativePart_def
        sketch_effects_def split: option.split)

lemma trace_add_model_part:
  "trace (state_of (add_model_part en ps s)) = trace s @ model_effects s"
  by (simp add: add_model_part_def bind_step_def await_def fileToGenerativePart_def
        model_effects_def split: option.split)

lemma trace_build_parts:
  "trace (state_of (build_parts en s)) = trace s @ build_effects en s"
proof (cases "add_sketch_part en [] s")
  case (Next ps s1)
  have a: "trace s1 = trace s @ sketch_effects s"
    using trace_add_sketch_part [of en "[]" s] Next by simp
  have c: "state_of (build_parts en s) = state_of (add_model_part en ps s1)"
    using Next by (cases "add_model_part en ps s1") (simp_all add: build_parts_def bind_step_def)
  show ?thesis
    unfolding c trace_add_model_part a using Next by (simp add: build_effects_def)
next
  case (Throw msg s1)
  have a: "trace s1 = trace s @ sketch_effects s"
    using trace_add_sketch_part [of en "[]" s] Throw by simp
  have "state_of (build_parts en s) = s1"
    using Throw by (simp add: build_parts_def bind_step_def)
  then show ?thesis
    using Throw a by (simp add: build_effects_def)
next
  case (Stuck s1)
  have a: "trace s1 = trace s @ sketch_effects s"
    using trace_add_sketch_part [of en "[]" s] Stuck by simp
  have "state_of (build_parts en s) = s1"
    using Stuck by (simp add: build_parts_def bind_step_def)
  then show ?thesis
    using Stuck a by (simp add: build_effects_def)
qed

lemma new_effects_append: "trace s' = trace s @ tr \<Longrightarrow> new_effects s s' = tr"
  by (simp add: new_effects_def)

lemma build_effects_encoding:
  "x \<in> set (build_effects en s) \<Longrightarrow> x = Await \<or> x = ToDataURL \<or> (\<exists>f. x = ReadAsDataURL f)"
  by (auto simp add: build_effects_def sketch_effects_def model_effects_def
        split: option.splits if_splits step.splits)

lemma trace_scan_parts:
  "trace (snd (scan_parts qs s)) =
     trace s @ (if fst (scan_parts qs s) then [SetHidden ResultImage False] else [])"
  by (induction qs) (simp_all split: option.split)

lemma trace_after_submit:
  assumes "sketchFile s \<noteq> None \<or> hasDrawn s" "client_error en = None"
    "build_parts en (set_loading_state s) = Next ps s2"
  shows "trace (final_state (handleGenerateClick en s)) =
           trace s2 @ after_build en (Next ps s2)"
proof (cases "api_result en")
  case (Fulfilled r)
  define s3 where "s3 = run_ui (during_api_call en) (emit Await (emit (GenerateContent ps) s2))"
  obtain found s4 where sc: "scan_parts (response_parts r) s3 = (found, s4)"
    by (cases "scan_parts (response_parts r) s3")
  have t4: "trace s4 = trace s3 @ (if found then [SetHidden ResultImage False] else [])"
    using trace_scan_parts [of "response_parts r" s3] sc by simp
  have t3: "trace s3 = trace s2 @ [GenerateContent ps, Await]"
    by (simp add: s3_def)
  show ?thesis
    unfolding handleGenerateClick_submit [OF assms] after_build.simps settle_effects_def
    using Fulfilled sc t4 t3
    by (cases found) (simp_all add: s3_def [symmetric] trace_finally_block trace_failure)
next
  case (Rejected msg)
  then show ?thesis
    unfolding handleGenerateClick_submit [OF assms] after_build.simps settle_effects_def
    by (simp add: trace_failure)
next
  case NeverSettles
  then show ?thesis
    unfolding handleGenerateClick_submit [OF assms] after_build.simps settle_effects_def
    by simp
qed

lemma trace_handleGenerateClick:
  "trace (final_state (handleGenerateClick en s)) = trace s @ run_effects en s"
proof (cases "sketchFile s \<noteq> None \<or> hasDrawn s")
  case False
  then show ?thesis
    by (simp add: handleGenerateClick_blocked run_effects_def)
next
  case pre: True
  show ?thesis
  proof (cases "client_error en")
    case (Some msg)
    with pre show ?thesis
      by (auto simp add: handleGenerateClick_no_client [OF pre Some] run_effects_def
            trace_failure trace_set_loading_state)
  next
    case None
    have b: "trace (state_of (build_parts en (set_loading_state s))) =
               trace s @ busy_effects @ build_effects en (set_loading_state s)"
      by (simp add: trace_build_parts trace_set_loading_state)
    have r: "run_effects en s =
               busy_effects @ build_effects en (set_loading_state s) @
               after_build en (build_parts en (set_loading_state s))"
      using pre None by (auto simp add: run_effects_def)
    show ?thesis
    proof (cases "build_parts en (set_loading_state s)")
      case (Next ps s2)
      with b show ?thesis
        unfolding r trace_after_submit [OF pre None Next] by simp
    next
      case (Throw msg s1)
      with b show ?thesis
        unfolding r handleGenerateClick_build_throw [OF pre None Throw]
        by (simp add: trace_failure)
    next
      case (Stuck s1)
      with b show ?thesis
        unfolding r handleGenerateClick_build_stuck [OF pre None Stuck] by simp
    qed
  qed
qed

lemma new_effects_handleGenerateClick:
  "new_effects s (final_state (handleGenerateClick en s)) = run_effects en s"
  by (rule new_effects_append) (rule trace_handleGenerateClick)

lemma settle_effects_no_request: "GenerateContent ps \<notin> set (settle_effects en s)"
  by (simp add: settle_effects_def failure_effects_def split: promise.split)

lemma after_build_no_encoding: "ToDataURL \<notin> set (after_build en b)"
  by (cases b) (simp_all add: settle_effects_def failure_effects_def split: promise.split)

lemma request_submitted:
  assumes "GenerateContent ps \<in> set (new_effects s (final_state (handleGenerateClick en s)))"
  shows "(sketchFile s \<noteq> None \<or> hasDrawn s) \<and> client_error en = None \<and>
         (\<exists>s2. build_parts en (set_loading_state s) = Next ps s2)"
proof -
  have m: "GenerateContent ps \<in> set (run_effects en s)"
    using assms by (simp add: new_effects_handleGenerateClick)
  have pre: "sketchFile s \<noteq> None \<or> hasDrawn s"
    using m by (auto simp add: run_effects_def split: if_splits)
  have cl: "client_error en = None"
    using m pre
    by (cases "client_error en")
       (auto simp add: run_effects_def busy_effects_def failure_effects_def)
  have nb: "GenerateContent ps \<notin> set (build_effects en (set_loading_state s))"
    using build_effects_encoding [of "GenerateContent ps" en "set_loading_state s"] by auto
  have "GenerateContent ps \<in> set (after_build en (build_parts en (set_loading_state s)))"
    using m pre cl nb by (auto simp add: run_effects_def busy_effects_def)
  then have "\<exists>s2. build_parts en (set_loading_state s) = Next ps s2"
    by (cases "build_parts en (set_loading_state s)")
       (auto simp add: settle_effects_no_request failure_effects_def)
  with pre cl show ?thesis by simp
qed

lemma trace_handle: "\<exists>tr. trace (handle e s) = trace s @ tr"
  by (cases e) (simp_all add: handle_ui_display trace_handleGenerateClick)

lemma trace_run: "\<exists>tr. trace (run es s) = trace s @ tr"
proof (induction es arbitrary: s)
  case Nil
  then show ?case by simp
next
  case (Cons e es)
  obtain t1 where "trace (handle e s) = trace s @ t1"
    using trace_handle by blast
  moreover obtain t2 where "trace (run es (handle e s)) = trace (handle e s) @ t2"
    using Cons.IH by blast
  ultimately show ?case by simp
qed

lemma new_effects_run_Cons:
  "new_effects s (run (e # es) s) =
     new_effects s (handle e s) @ new_effects (handle e s) (run es (handle e s))"
proof -
  obtain t1 where t1: "trace (handle e s) = trace s @ t1"
    using trace_handle by blast
  obtain t2 where t2: "trace (run es (handle e s)) = trace (handle e s) @ t2"
    using trace_run by blast
  show ?thesis
    by (simp add: new_effects_def t1 t2)
qed

section \<open>The inputs across a run\<close>

lemma inputs_updates [simp]:
  "inputs (s\<lparr>generateBtnDisabled := b\<rparr>) = inputs s"
  "inputs (s\<lparr>placeholderHidden := b\<rparr>) = inputs s"
  "inputs (s\<lparr>placeholderHTML := html\<rparr>) = inputs s"
  "inputs (s\<lparr>loadingHidden := b\<rparr>) = inputs s"
  "inputs (s\<lparr>resultImageHidden := b\<rparr>) = inputs s"
  "inputs (s\<lparr>resultImageSrc := src\<rparr>) = inputs s"
  "inputs (s\<lparr>trace := tr\<rparr>) = inputs s"
  by (simp_all add: inputs_def)

lemma inputs_writes [simp]:
  "inputs (emit x s) = inputs s"
  "inputs (set_hidden el b s) = inputs s"
  "inputs (set_generate_disabled b s) = inputs s"
  by (cases el; simp add: emit_def set_generate_disabled_def)+

lemma inputs_blocks [simp]:
  "inputs (set_loading_state s) = inputs s"
  "inputs (catch_block msg s) = inputs s"
  "inputs (finally_block s) = inputs s"
  by (simp_all add: set_loading_state_def catch_block_def finally_block_def)

lemma inputs_handle_ui: "inputs (handle_ui e s) = handle_ui e (inputs s)"
  by (cases e; simp add: ui_defs inputs_def split: list.split)

lemma inputs_run_ui: "inputs (run_ui es s) = run_ui es (inputs s)"
  by (induction es arbitrary: s) (simp_all add: inputs_handle_ui)

lemma inputs_scan_parts [simp]: "inputs (snd (scan_parts qs s)) = inputs s"
  by (induction qs) (simp_all split: option.split)

lemma inputs_await: "inputs (state_of (await p es s)) = run_ui es (inputs s)"
  by (cases p) (simp_all add: await_def inputs_run_ui)

lemma inputs_add_sketch_part:
  "inputs (state_of (add_sketch_part en ps s)) =
     run_ui (if sketchFile s = None then [] else during_sketch_read en) (inputs s)"
  by (simp add: add_sketch_part_def bind_step_def await_def fileToGenerativePart_def inputs_run_ui
           split: option.split)

lemma inputs_add_model_part:
  "inputs (state_of (add_model_part en ps s)) =
     run_ui (if modelFile s = None then [] else during_model_read en) (inputs s)"
  by (simp add: add_model_part_def bind_step_def await_def fileToGenerativePart_def inputs_run_ui
           split: option.split)

lemma inputs_build_parts:
  "\<exists>es. inputs (state_of (build_parts en s)) = run_ui es (inputs s)"
proof (cases "add_sketch_part en [] s")
  case (Next ps s1)
  have a: "inputs s1 = run_ui (if sketchFile s = None then [] else during_sketch_read en) (inputs s)"
    using inputs_add_sketch_part [of en "[]" s] Next by simp
  have c: "state_of (build_parts en s) = state_of (add_model_part en ps s1)"
    using Next by (cases "add_model_part en ps s1") (simp_all add: build_parts_def bind_step_def)
  have "inputs (state_of (build_parts en s)) =
          run_ui ((if sketchFile s = None then [] else during_sketch_read en) @
                  (if modelFile s1 = None then [] else during_model_read en)) (inputs s)"
    unfolding c inputs_add_model_part a run_ui_append ..
  then show ?thesis ..
next
  case (Throw m s1)
  then have "state_of (build_parts en s) = state_of (add_sketch_part en [] s)"
    by (simp add: build_parts_def bind_step_def)
  then show ?thesis
    using inputs_add_sketch_part [of en "[]" s] by metis
next
  case (Stuck s1)
  then have "state_of (build_parts en s) = state_of (add_sketch_part en [] s)"
    by (simp add: build_parts_def bind_step_def)
  then show ?thesis
    using inputs_add_sketch_part [of en "[]" s] by metis
qed

lemma inputs_handleGenerateClick:
  "\<exists>es. inputs (final_state (handleGenerateClick en s)) = run_ui es (inputs s)"
proof (cases "sketchFile s \<noteq> None \<or> hasDrawn s")
  case False
  then have "inputs (final_state (handleGenerateClick en s)) = run_ui [] (inputs s)"
    by (simp add: handleGenerateClick_blocked)
  then show ?thesis ..
next
  case pre: True
  show ?thesis
  proof (cases "client_error en")
    case (Some msg)
    have "inputs (final_state (handleGenerateClick en s)) = run_ui [] (inputs s)"
      by (simp add: handleGenerateClick_no_client [OF pre Some])
    then show ?thesis ..
  next
    case None
    obtain es where es: "inputs (state_of (build_parts en (set_loading_state s))) = run_ui es (inputs s)"
      using inputs_build_parts [of en "set_loading_state s"] by auto
    show ?thesis
    proof (cases "build_parts en (set_loading_state s)")
      case (Next ps s2)
      define s3 where "s3 = run_ui (during_api_call en) (emit Await (emit (GenerateContent ps) s2))"
      have i3: "inputs s3 = run_ui (es @ during_api_call en) (inputs s)"
        using es Next by (simp add: s3_def inputs_run_ui run_ui_append)
      have "inputs (final_state (handleGenerateClick en s)) = inputs s3"
      proof (cases "api_result en")
        case (Fulfilled r)
        obtain found s4 where sc: "scan_parts (response_parts r) s3 = (found, s4)"
          by (cases "scan_parts (response_parts r) s3")
        have "inputs s4 = inputs s3"
          using inputs_scan_parts [of "response_parts r" s3] sc by simp
        then show ?thesis
          unfolding handleGenerateClick_submit [OF pre None Next]
          using Fulfilled sc by (cases found) (simp_all add: s3_def [symmetric])
      next
        case (Rejected msg)
        then show ?thesis
          unfolding handleGenerateClick_submit [OF pre None Next]
          by (simp add: s3_def)
      next
        case NeverSettles
        then show ?thesis
          unfolding handleGenerateClick_submit [OF pre None Next]
          by (simp add: s3_def)
      qed
      with i3 show ?thesis by metis
    next
      case (Throw msg s1)
      then have "inputs (final_state (handleGenerateClick en s)) = run_ui es (inputs s)"
        using es by (simp add: handleGenerateClick_build_throw [OF pre None Throw])
      then show ?thesis ..
    next
      case (Stuck s1)
      then have "inputs (final_state (handleGenerateClick en s)) = run_ui es (inputs s)"
        using es by (simp add: handleGenerateClick_build_stuck [OF pre None Stuck])
      then show ?thesis ..
    qed
  qed
qed

section \<open>The display across the encoding steps and the scan\<close>

lemma add_sketch_part_display:
  "generateBtnDisabled (state_of (add_sketch_part en ps s)) = generateBtnDisabled s"
  "placeholderHidden (state_of (add_sketch_part en ps s)) = placeholderHidden s"
  "placeholderHTML (state_of (add_sketch_part en ps s)) = placeholderHTML s"
  "loadingHidden (state_of (add_sketch_part en ps s)) = loadingHidden s"
  "resultImageHidden (state_of (add_sketch_part en ps s)) = resultImageHidden s"
  "resultImageSrc (state_of (add_sketch_part en ps s)) = resultImageSrc s"
  by (simp_all add: add_sketch_part_def bind_step_def await_def fileToGenerativePart_def
        split: option.split)

lemma add_model_part_display:
  "generateBtnDisabled (state_of (add_model_part en ps s)) = generateBtnDisabled s"
  "placeholderHidden (state_of (add_model_part en ps s)) = placeholderHidden s"
  "placeholderHTML (state_of (add_model_part en ps s)) = placeholderHTML s"
  "loadingHidden (state_of (add_model_part en ps s)) = loadingHidden s"
  "resultImageHidden (state_of (add_model_part en ps s)) = resultImageHidden s"
  "resultImageSrc (state_of (add_model_part en ps s)) = resultImageSrc s"
  by (simp_all add: add_model_part_def bind_step_def await_def fileToGenerativePart_def
        split: option.split)

lemma build_parts_display:
  "generateBtnDisabled (state_of (build_parts en s)) = generateBtnDisabled s"
  "placeholderHidden (state_of (build_parts en s)) = placeholderHidden s"
  "placeholderHTML (state_of (build_parts en s)) = placeholderHTML s"
  "loadingHidden (state_of (build_parts en s)) = loadingHidden s"
  "resultImageHidden (state_of (build_parts en s)) = resultImageHidden s"
  "resultImageSrc (state_of (build_parts en s)) = resultImageSrc s"
  using add_sketch_part_display [of en "[]" s]
  by (cases "add_sketch_part en [] s"; simp add: state_of_build_parts add_model_part_display)+

lemma scan_parts_found:
  assumes "list_all (\<lambda>q. inlineData q = None) pre" "inlineData p = Some b"
  shows "scan_parts (pre @ p # post) s =
    (True, set_hidden ResultImage False
       (s\<lparr>resultImageSrc := ''data:'' @ js_string (mimeType b) @ '';base64,'' @ js_string (data b)\<rparr>))"
  using assms by (induction pre) simp_all

lemma scan_parts_none:
  assumes "list_all (\<lambda>q. inlineData q = None) qs"
  shows "scan_parts qs s = (False, s)"
  using assms by (induction qs) simp_all

section \<open>The two file slots across listeners and runs\<close>

lemma sketchFile_init: "sketchFile (init page) = None"
  by (simp add: init_def updateUIState_def)

lemma handle_ui_sketchFile: "sketchFile s = None \<Longrightarrow> sketchFile (handle_ui e s) = None"
  by (cases e; simp add: ui_defs split: list.split)

lemma run_ui_sketchFile: "sketchFile s = None \<Longrightarrow> sketchFile (run_ui es s) = None"
  by (induction es arbitrary: s) (simp_all add: handle_ui_sketchFile)

lemma sketchFile_inputs [simp]: "sketchFile (inputs s) = sketchFile s"
  by (simp add: inputs_def)

lemma handle_sketchFile: "sketchFile s = None \<Longrightarrow> sketchFile (handle e s) = None"
proof (cases e)
  case (UI u)
  assume "sketchFile s = None"
  then show ?thesis using UI by (simp add: handle_ui_sketchFile)
next
  case (GenerateClick en)
  assume n: "sketchFile s = None"
  obtain es where "inputs (final_state (handleGenerateClick en s)) = run_ui es (inputs s)"
    using inputs_handleGenerateClick by blast
  then have "sketchFile (final_state (handleGenerateClick en s)) = sketchFile (run_ui es (inputs s))"
    by (metis sketchFile_inputs)
  then show ?thesis using GenerateClick n by (simp add: run_ui_sketchFile)
qed

lemma run_sketchFile: "sketchFile s = None \<Longrightarrow> sketchFile (run es s) = None"
  by (induction es arbitrary: s) (simp_all add: handle_sketchFile)

lemma handle_ui_modelFile: "modelFile s \<noteq> None \<Longrightarrow> modelFile (handle_ui e s) \<noteq> None"
  by (cases e; simp add: ui_defs split: list.split)

lemma run_ui_modelFile: "modelFile s \<noteq> None \<Longrightarrow> modelFile (run_ui es s) \<noteq> None"
  by (induction es arbitrary: s) (simp_all add: handle_ui_modelFile del: not_None_eq)

lemma handle_ui_model_slot:
  "modelFile s \<noteq> None \<and> modelTypeDisabled s \<Longrightarrow>
   modelFile (handle_ui e s) \<noteq> None \<and> modelTypeDisabled (handle_ui e s)"
  by (cases e; simp add: ui_defs split: list.split)

lemma run_ui_model_slot:
  "modelFile s \<noteq> None \<and> modelTypeDisabled s \<Longrightarrow>
   modelFile (run_ui es s) \<noteq> None \<and> modelTypeDisabled (run_ui es s)"
proof (induction es arbitrary: s)
  case Nil
  then show ?case by simp
next
  case (Cons e es)
  from handle_ui_model_slot [OF Cons.prems] Cons.IH show ?case by simp
qed

lemma model_slot_inputs [simp]:
  "modelFile (inputs s) = modelFile s" "modelTypeDisabled (inputs s) = modelTypeDisabled s"
  by (simp_all add: inputs_def)

lemma handle_model_slot:
  assumes "modelFile s \<noteq> None \<and> modelTypeDisabled s"
  shows "modelFile (handle e s) \<noteq> None \<and> modelTypeDisabled (handle e s)"
proof (cases e)
  case (UI u)
  with handle_ui_model_slot [OF assms] show ?thesis by simp
next
  case (GenerateClick en)
  obtain es where es: "inputs (final_state (handleGenerateClick en s)) = run_ui es (inputs s)"
    using inputs_handleGenerateClick by blast
  have "modelFile (inputs s) \<noteq> None \<and> modelTypeDisabled (inputs s)"
    using assms by simp
  from run_ui_model_slot [OF this, of es]
  have "modelFile (inputs (final_state (handleGenerateClick en s))) \<noteq> None \<and>
        modelTypeDisabled (inputs (final_state (handleGenerateClick en s)))"
    unfolding es .
  then show ?thesis
    using GenerateClick by simp
qed

section \<open>The parts of a request\<close>

lemma fileToGenerativePart_image:
  "fileToGenerativePart f = Fulfilled p \<Longrightarrow> inlineData p \<noteq> None \<and> part_text p = None"
  by (auto simp add: fileToGenerativePart_def split: option.splits)

lemma canvasToGenerativePart_image:
  "inlineData (canvasToGenerativePart u) \<noteq> None \<and> part_text (canvasToGenerativePart u) = None"
  by (simp add: canvasToGenerativePart_def)

lemma build_parts_shape:
  assumes bp: "build_parts en s = Next ps s2" and pre: "sketchFile s \<noteq> None \<or> hasDrawn s"
  shows "\<exists>sk.
     (case sketchFile s of
        Some f \<Rightarrow> fileToGenerativePart f = Fulfilled sk
      | None \<Rightarrow> sk = canvasToGenerativePart (toDataURL en (raster s))) \<and>
     (case modelFile s2 of
        None \<Rightarrow> ps = [sk, text_part s2]
      | Some g \<Rightarrow> \<exists>g' mp. fileToGenerativePart g' = Fulfilled mp \<and> ps = [sk, mp, text_part s2]) \<and>
     inputs s2 =
       run_ui ((if sketchFile s = None then [] else during_sketch_read en) @
               (if modelFile s2 = None then [] else during_model_read en)) (inputs s)"
proof -
  obtain ps1 s1 ps2 where
    a: "add_sketch_part en [] s = Next ps1 s1" and
    b: "add_model_part en ps1 s1 = Next ps2 s2" and
    c: "ps = ps2 @ [text_part s2]"
    using build_parts_Next [OF bp] by blast
  have i1: "inputs s1 = run_ui (if sketchFile s = None then [] else during_sketch_read en) (inputs s)"
    using inputs_add_sketch_part [of en "[]" s] a by simp
  have i2: "inputs s2 = run_ui (if modelFile s1 = None then [] else during_model_read en) (inputs s1)"
    using inputs_add_model_part [of en ps1 s1] b by simp
  obtain sk where sk: "ps1 = [sk]"
    "case sketchFile s of
        Some f \<Rightarrow> fileToGenerativePart f = Fulfilled sk
      | None \<Rightarrow> sk = canvasToGenerativePart (toDataURL en (raster s))"
    using add_sketch_part_Next [OF a] pre by (auto split: option.splits if_splits)
  show ?thesis
  proof (cases "modelFile s1")
    case None
    then have "ps2 = ps1" "s2 = s1"
      using add_model_part_Next [OF b] by simp_all
    with None sk c i1 i2 show ?thesis
      by (intro exI [of _ sk]) (simp add: run_ui_append)
  next
    case (Some g')
    then obtain mp where mp: "fileToGenerativePart g' = Fulfilled mp" "ps2 = ps1 @ [mp]"
      and s2: "s2 = run_ui (during_model_read en) (emit Await (emit (ReadAsDataURL g') s1))"
      using add_model_part_Next [OF b] by auto
    have "modelFile s2 \<noteq> None"
      unfolding s2 using Some by (intro run_ui_modelFile) simp
    then obtain g where g: "modelFile s2 = Some g" by auto
    show ?thesis
      using g mp sk c i1 i2 Some
      by (intro exI [of _ sk]) (auto simp add: run_ui_append)
  qed
qed

lemma submitted_parts:
  assumes "GenerateContent ps \<in> set (new_effects s (final_state (handleGenerateClick en s)))"
  shows "\<exists>sk s2.
     build_parts en (set_loading_state s) = Next ps s2 \<and>
     inputs s2 =
       run_ui ((if sketchFile s = None then [] else during_sketch_read en) @
               (if modelFile s2 = None then [] else during_model_read en)) (inputs s) \<and>
     (case sketchFile s of
        Some f \<Rightarrow> fileToGenerativePart f = Fulfilled sk
      | None \<Rightarrow> sk = canvasToGenerativePart (toDataURL en (raster s))) \<and>
     (case modelFile s2 of
        None \<Rightarrow> ps = [sk, text_part s2]
      | Some g \<Rightarrow> \<exists>g' mp. fileToGenerativePart g' = Fulfilled mp \<and> ps = [sk, mp, text_part s2])"
proof -
  from request_submitted [OF assms] obtain s2 where
    pre: "sketchFile s \<noteq> None \<or> hasDrawn s" and
    bp: "build_parts en (set_loading_state s) = Next ps s2"
    by blast
  have pre': "sketchFile (set_loading_state s) \<noteq> None \<or> hasDrawn (set_loading_state s)"
    using pre by simp
  from build_parts_shape [OF bp pre'] obtain sk where
    sk': "case sketchFile (set_loading_state s) of
           Some f \<Rightarrow> fileToGenerativePart f = Fulfilled sk
         | None \<Rightarrow> sk = canvasToGenerativePart (toDataURL en (raster (set_loading_state s)))" and
    ps: "case modelFile s2 of
           None \<Rightarrow> ps = [sk, text_part s2]
         | Some g \<Rightarrow> \<exists>g' mp. fileToGenerativePart g' = Fulfilled mp \<and> ps = [sk, mp, text_part s2]" and
    inp': "inputs s2 =
       run_ui ((if sketchFile (set_loading_state s) = None then [] else during_sketch_read en) @
               (if modelFile s2 = None then [] else during_model_read en))
         (inputs (set_loading_state s))"
    by blast
  have sk: "case sketchFile s of
           Some f \<Rightarrow> fileToGenerativePart f = Fulfilled sk
         | None \<Rightarrow> sk = canvasToGenerativePart (toDataURL en (raster s))"
    using sk' by (simp cong: option.case_cong)
  have inp: "inputs s2 =
       run_ui ((if sketchFile s = None then [] else during_sketch_read en) @
               (if modelFile s2 = None then [] else during_model_read en)) (inputs s)"
    using inp' by simp
  from bp inp sk ps show ?thesis by blast
qed

lemma text_part_literal:
  "text_part s2 =
       \<lparr>inlineData = None,
        part_text = Some
          ([CHR 0x0A] @
           ''          Transform the provided clothing sketch into a hyperrealistic, photorealistic runway photo.'' @
           [CHR 0x0A] @
           ''          Have '' @ (if modelFile s2 = None then ''a '' @ modelTypeValue s2 @ '' model''
              else ''the uploaded model'') @ '' wear this design.'' @
           [CHR 0x0A] @
           ''          Render the fabric, shimmer, style, and other details exactly as described in the following text: '' @
           [CHR 0x22] @ (if designDescriptionValue s2 = [] then ''a stunning fashion design''
               else designDescriptionValue s2) @ [CHR 0x22] @ ''.'' @
           [CHR 0x0A] @
           ''          The realism level must be '' @ realismSliderValue s2 @ ''%.'' @
           [CHR 0x0A] @
           ''          Ensure the final image looks like high-quality professional photography, not an AI-generated image.'' @
           [CHR 0x0A] @
           ''          The output must be a single, cohesive, photorealistic image of the new design on the model.'' @
           [CHR 0x0A] @
           ''        '')\<rparr>"
  by (simp add: text_part_def textPrompt_def modelInfo_def userDescription_def)

lemma fileToGenerativePart_Fulfilled:
  "fileToGenerativePart f = Fulfilled p \<Longrightarrow>
     \<exists>u. file_dataURL f = Some u \<and>
       p = \<lparr>inlineData = Some \<lparr>data = second (split CHR '','' u), mimeType = Some (file_type f)\<rparr>,
            part_text = None\<rparr>"
  by (auto simp add: fileToGenerativePart_def split: option.splits)

lemma modelFile_run_ui_inputs: "modelFile (run_ui es (inputs s)) = modelFile (run_ui es s)"
  by (metis inputs_run_ui model_slot_inputs(1))

lemma build_parts_full:
  assumes bp: "build_parts en s = Next ps s2" and pre: "sketchFile s \<noteq> None \<or> hasDrawn s"
  shows "\<exists>sk.
     (case sketchFile s of
        Some f \<Rightarrow> fileToGenerativePart f = Fulfilled sk
      | None \<Rightarrow> sk = canvasToGenerativePart (toDataURL en (raster s))) \<and>
     (case modelFile (run_ui (if sketchFile s = None then [] else during_sketch_read en) s) of
        None \<Rightarrow> modelFile s2 = None \<and> ps = [sk, text_part s2]
      | Some g \<Rightarrow>
          modelFile s2 \<noteq> None \<and>
          (\<exists>mp. fileToGenerativePart g = Fulfilled mp \<and> ps = [sk, mp, text_part s2]))"
proof -
  obtain ps1 s1 ps2 where
    a: "add_sketch_part en [] s = Next ps1 s1" and
    b: "add_model_part en ps1 s1 = Next ps2 s2" and
    c: "ps = ps2 @ [text_part s2]"
    using build_parts_Next [OF bp] by blast
  have i1: "inputs s1 = run_ui (if sketchFile s = None then [] else during_sketch_read en) (inputs s)"
    using inputs_add_sketch_part [of en "[]" s] a by simp
  have "modelFile s1 = modelFile (inputs s1)" by simp
  then have m1: "modelFile s1 =
      modelFile (run_ui (if sketchFile s = None then [] else during_sketch_read en) s)"
    unfolding i1 modelFile_run_ui_inputs .
  obtain sk where sk: "ps1 = [sk]"
    "case sketchFile s of
        Some f \<Rightarrow> fileToGenerativePart f = Fulfilled sk
      | None \<Rightarrow> sk = canvasToGenerativePart (toDataURL en (raster s))"
    using add_sketch_part_Next [OF a] pre by (auto split: option.splits if_splits)
  show ?thesis
  proof (cases "modelFile s1")
    case None
    then have "ps2 = ps1" "s2 = s1"
      using add_model_part_Next [OF b] by simp_all
    with None sk c show ?thesis
      unfolding m1 [symmetric] by (intro exI [of _ sk]) simp
  next
    case (Some g)
    then obtain mp where mp: "fileToGenerativePart g = Fulfilled mp" "ps2 = ps1 @ [mp]"
      and s2: "s2 = run_ui (during_model_read en) (emit Await (emit (ReadAsDataURL g) s1))"
      using add_model_part_Next [OF b] by auto
    have "modelFile s2 \<noteq> None"
      unfolding s2 using Some by (intro run_ui_modelFile) simp
    with Some mp sk c show ?thesis
      unfolding m1 [symmetric] by (intro exI [of _ sk]) simp
  qed
qed

lemma uploaded_model_request:
  assumes m: "modelFile s \<noteq> None"
      and r: "GenerateContent ps \<in> set (new_effects s (handle e s))"
  shows "\<exists>d r. last ps = \<lparr>inlineData = None, part_text = Some (textPrompt ''the uploaded model'' d r)\<rparr>"
proof (cases e)
  case (UI u)
  then have "new_effects s (handle e s) = []"
    by (simp add: new_effects_def handle_ui_display)
  with r show ?thesis by simp
next
  case (GenerateClick en)
  with r have "GenerateContent ps \<in> set (new_effects s (final_state (handleGenerateClick en s)))"
    by simp
  from submitted_parts [OF this] obtain sk s2 where
    inp: "inputs s2 =
       run_ui ((if sketchFile s = None then [] else during_sketch_read en) @
               (if modelFile s2 = None then [] else during_model_read en)) (inputs s)" and
    ps: "case modelFile s2 of
           None \<Rightarrow> ps = [sk, text_part s2]
         | Some g \<Rightarrow> \<exists>g' mp. fileToGenerativePart g' = Fulfilled mp \<and> ps = [sk, mp, text_part s2]"
    by blast
  have "modelFile (inputs s2) \<noteq> None"
    unfolding inp using m by (intro run_ui_modelFile) simp
  then have m2: "modelFile s2 \<noteq> None" by simp
  then have "last ps = text_part s2"
    using ps by (cases "modelFile s2") auto
  with m2 show ?thesis
    by (auto simp add: text_part_def modelInfo_def)
qed

section \<open>How a run of the handler ends\<close>

lemma settle_effects_cleanup:
  assumes "api_result en \<noteq> NeverSettles"
  shows "\<exists>mid. settle_effects en s = mid @ [SetHidden Loading True, SetGenerateDisabled False] \<and>
           SetGenerateDisabled False \<notin> set mid \<and> SetHidden Loading True \<notin> set mid"
  using assms
  by (cases "api_result en") (auto simp add: settle_effects_def failure_effects_def)

lemma settled_run_cleans_up:
  assumes pre: "sketchFile s \<noteq> None \<or> hasDrawn s"
      and d: "handleGenerateClick en s = Done s'"
  shows "loadingHidden s' \<and> \<not> generateBtnDisabled s' \<and>
         (\<exists>mid. new_effects s s' =
                  busy_effects @ mid @ [SetHidden Loading True, SetGenerateDisabled False] \<and>
                SetGenerateDisabled False \<notin> set mid \<and> SetHidden Loading True \<notin> set mid)"
proof -
  obtain x where "s' = finally_block x"
    using settled_by_finally [OF pre d] by blast
  then have flags: "loadingHidden s' \<and> \<not> generateBtnDisabled s'"
    by (simp add: finally_block_def set_generate_disabled_def emit_def)
  have ne: "new_effects s s' = run_effects en s"
    using new_effects_handleGenerateClick [of s en] d by simp
  have "\<exists>mid. run_effects en s =
                  busy_effects @ mid @ [SetHidden Loading True, SetGenerateDisabled False] \<and>
                SetGenerateDisabled False \<notin> set mid \<and> SetHidden Loading True \<notin> set mid"
  proof (cases "client_error en")
    case (Some msg)
    have "run_effects en s = busy_effects @ [ConsoleError msg, SetHidden Placeholder False] @
            [SetHidden Loading True, SetGenerateDisabled False]"
      using pre Some by (auto simp add: run_effects_def failure_effects_def)
    then show ?thesis by (intro exI [of _ "[ConsoleError msg, SetHidden Placeholder False]"]) simp
  next
    case None
    let ?b = "build_effects en (set_loading_state s)"
    have enc: "SetGenerateDisabled False \<notin> set ?b \<and> SetHidden Loading True \<notin> set ?b"
      using build_effects_encoding [of _ en "set_loading_state s"] by auto
    have r: "run_effects en s = busy_effects @ ?b @
               after_build en (build_parts en (set_loading_state s))"
      using pre None by (auto simp add: run_effects_def)
    show ?thesis
    proof (cases "build_parts en (set_loading_state s)")
      case (Next ps s2)
      have "api_result en \<noteq> NeverSettles"
        using d handleGenerateClick_submit [OF pre None Next] by auto
      from settle_effects_cleanup [OF this] obtain mid where
        mid: "settle_effects en (run_ui (during_api_call en) (emit Await (emit (GenerateContent ps) s2))) =
                mid @ [SetHidden Loading True, SetGenerateDisabled False]"
          "SetGenerateDisabled False \<notin> set mid" "SetHidden Loading True \<notin> set mid"
        by blast
      show ?thesis
        using enc mid Next unfolding r
        by (intro exI [of _ "?b @ [GenerateContent ps, Await] @ mid"]) simp
    next
      case (Throw msg s1)
      show ?thesis
        using enc Throw unfolding r
        by (intro exI [of _ "?b @ [ConsoleError msg, SetHidden Placeholder False]"])
           (simp add: failure_effects_def)
    next
      case (Stuck s1)
      with d handleGenerateClick_build_stuck [OF pre None Stuck] show ?thesis by simp
    qed
  qed
  with flags ne show ?thesis by simp
qed

lemma unreadable_model_hangs:
  assumes "sketchFile s = None" "hasDrawn s" "modelFile s = Some g" "file_dataURL g = None"
    "client_error en = None"
  shows "\<exists>s'. handleGenerateClick en s = Hung s' \<and> generateBtnDisabled s' \<and> \<not> loadingHidden s' \<and>
           placeholderHidden s' \<and>
           new_effects s s' = busy_effects @ [ToDataURL, ReadAsDataURL g, Await]"
proof -
  let ?s1 = "run_ui (during_model_read en)
               (emit Await (emit (ReadAsDataURL g) (emit ToDataURL (set_loading_state s))))"
  have bp: "build_parts en (set_loading_state s) = Stuck ?s1"
    using assms
    by (simp add: build_parts_def bind_step_def add_sketch_part_def add_model_part_def
          await_def fileToGenerativePart_def)
  have pre: "sketchFile s \<noteq> None \<or> hasDrawn s"
    using assms by simp
  have h: "handleGenerateClick en s = Hung ?s1"
    by (rule handleGenerateClick_build_stuck [OF pre assms(5) bp])
  have "trace ?s1 = trace s @ busy_effects @ [ToDataURL, ReadAsDataURL g, Await]"
    by (simp add: trace_set_loading_state)
  then have "new_effects s ?s1 = busy_effects @ [ToDataURL, ReadAsDataURL g, Await]"
    by (rule new_effects_append)
  with h show ?thesis
    by (simp add: set_loading_state_display)
qed

section \<open>Uploading a sketch\<close>

lemma sketchUpload_change_clears:
  "sketchFile (handle_ui (SketchUploadChange (f # fs)) s) = None \<and>
   \<not> canvasDisabled (handle_ui (SketchUploadChange (f # fs)) s)"
  by (simp add: ui_defs)

text \<open>
  C1. The claim is that after a sketch file is selected, \<open>sketchFile\<close> holds it and the
  drawing surface is disabled. The listener calls \<open>clearCanvas\<close> after storing the file,
  and \<open>clearCanvas\<close> sets \<open>sketchFile\<close> back to null: on the page as loaded, selecting
  \<open>sketch.png\<close> leaves \<open>sketchFile\<close> null, the drawing surface enabled and the preview
  hidden, and a click on the trigger is answered with the notice that no sketch exists.
\<close>

theorem sketch_upload_loses_file:
  "sketchFile (handle_ui (SketchUploadChange [sketch_png]) (init example_page)) = None \<and>
   \<not> canvasDisabled (handle_ui (SketchUploadChange [sketch_png]) (init example_page)) \<and>
   sketchPreviewDisplay (handle_ui (SketchUploadChange [sketch_png]) (init example_page)) = ''none'' \<and>
   handleGenerateClick (example_env NeverSettles)
       (handle_ui (SketchUploadChange [sketch_png]) (init example_page)) =
     Done (emit (Alert ''Please upload or draw a sketch.'')
       (handle_ui (SketchUploadChange [sketch_png]) (init example_page)))"
  by (simp add: page_defs sketch_png_def ui_defs handleGenerateClick_def)

section \<open>The uploaded sketch file over a session\<close>

text \<open>
  C2. After initialisation and any sequence of events (the listeners, and runs of the
  generation handler with the listeners that run during its suspensions), \<open>sketchFile\<close> is
  null. Consequently \<open>startDrawing\<close> never takes its early return (it sets \<open>isDrawing\<close>
  and \<open>hasDrawn\<close>), and the first part of every request submitted from such a state is
  the encoding of the canvas, never of an uploaded sketch file.
\<close>

theorem sketchFile_stays_null:
  "sketchFile (run es (init page)) = None \<and>
   isDrawing (startDrawing pos (run es (init page))) \<and>
   hasDrawn (startDrawing pos (run es (init page))) \<and>
   (\<forall>ps. GenerateContent ps \<in> set (new_effects (run es (init page))
              (final_state (handleGenerateClick en (run es (init page)))))
      \<longrightarrow> hd ps = canvasToGenerativePart (toDataURL en (raster (run es (init page)))))"
proof -
  define r where "r = run es (init page)"
  have n: "sketchFile r = None"
    unfolding r_def by (rule run_sketchFile) (rule sketchFile_init)
  have d: "isDrawing (startDrawing pos r) \<and> hasDrawn (startDrawing pos r)"
    using n by (simp add: startDrawing_def updateUIState_def)
  have g: "hd ps = canvasToGenerativePart (toDataURL en (raster r))"
    if "GenerateContent ps \<in> set (new_effects r (final_state (handleGenerateClick en r)))" for ps
  proof -
    from submitted_parts [OF that] obtain sk s2 where
      sk: "case sketchFile r of
             Some f \<Rightarrow> fileToGenerativePart f = Fulfilled sk
           | None \<Rightarrow> sk = canvasToGenerativePart (toDataURL en (raster r))" and
      ps: "case modelFile s2 of
             None \<Rightarrow> ps = [sk, text_part s2]
           | Some g \<Rightarrow> \<exists>g' mp. fileToGenerativePart g' = Fulfilled mp \<and> ps = [sk, mp, text_part s2]"
      by blast
    have "hd ps = sk"
      using ps by (cases "modelFile s2") auto
    with sk n show ?thesis by simp
  qed
  from n d g show ?thesis
    unfolding r_def by blast
qed

theorem sketchFile_stays_null_witness:
  "GenerateContent
       [\<lparr>inlineData = Some \<lparr>data = Some ''DDDD'', mimeType = Some ''image/png''\<rparr>, part_text = None\<rparr>,
        \<lparr>inlineData = None,
         part_text = Some (textPrompt ''a female model'' ''a stunning fashion design'' ''80'')\<rparr>]
     \<in> set (new_effects (run session (init example_page))
              (final_state (handleGenerateClick (example_env (Rejected ''offline''))
                 (run session (init example_page))))) \<and>
   sketchFile (run session (init example_page)) = None \<and>
   canvasToGenerativePart (toDataURL (example_env (Rejected ''offline''))
       (raster (run session (init example_page)))) =
     \<lparr>inlineData = Some \<lparr>data = Some ''DDDD'', mimeType = Some ''image/png''\<rparr>, part_text = None\<rparr>"
proof -
  have h: "GenerateContent
       [\<lparr>inlineData = Some \<lparr>data = Some ''DDDD'', mimeType = Some ''image/png''\<rparr>, part_text = None\<rparr>,
        \<lparr>inlineData = None,
         part_text = Some (textPrompt ''a female model'' ''a stunning fashion design'' ''80'')\<rparr>]
     \<in> set (new_effects (run session (init example_page))
              (final_state (handleGenerateClick (example_env (Rejected ''offline''))
                 (run session (init example_page)))))"
    by (simp add: session_def page_defs sketch_png_def response_of_def caption_part_def
          image_part_def ui_defs gen_defs)
  from sketchFile_stays_null [of session example_page _ "example_env (Rejected ''offline'')"] h
  show ?thesis by fastforce
qed

section \<open>The clear operation\<close>

text \<open>
  C8. In every state, \<open>clearCanvas\<close> wipes the whole raster, sets \<open>hasDrawn\<close> to false and
  \<open>sketchFile\<close> to null, resets the upload control, and leaves the model-reference file
  and the model-type selection as they were.
\<close>

theorem clearCanvas_resets:
  "raster (clearCanvas s) = [] \<and>
   \<not> hasDrawn (clearCanvas s) \<and>
   sketchFile (clearCanvas s) = None \<and>
   sketchUploadFiles (clearCanvas s) = [] \<and>
   modelFile (clearCanvas s) = modelFile s \<and>
   modelTypeValue (clearCanvas s) = modelTypeValue s"
  by (simp add: clearCanvas_def updateUIState_def)

theorem clearCanvas_resets_witness:
  "raster (clearCanvas (handle_ui (ModelUploadChange [model_jpg]) drawn_page)) = [] \<and>
   raster (handle_ui (ModelUploadChange [model_jpg]) drawn_page) = [[(1, 1), (2, 2)]] \<and>
   modelFile (clearCanvas (handle_ui (ModelUploadChange [model_jpg]) drawn_page)) = Some model_jpg"
  using clearCanvas_resets [of "handle_ui (ModelUploadChange [model_jpg]) drawn_page"]
  by (simp add: page_defs model_jpg_def ui_defs)

section \<open>Generation without a sketch\<close>

text \<open>
  C4. In every state with no uploaded sketch file and \<open>hasDrawn\<close> false, the generation
  handler returns at once: the only effect is the \<open>alert\<close> with the validation notice (no
  encoding, no network call), and the state, with the busy indicator, the trigger and
  the result visibility, is unchanged.
\<close>

theorem generate_without_sketch:
  assumes "sketchFile s = None" and "\<not> hasDrawn s"
  shows "handleGenerateClick en s =
           Done (s\<lparr>trace := trace s @ [Alert ''Please upload or draw a sketch.'']\<rparr>)"
  using assms by (simp add: handleGenerateClick_def emit_def)

theorem generate_without_sketch_witness:
  "sketchFile (init example_page) = None \<and> \<not> hasDrawn (init example_page) \<and>
   handleGenerateClick (example_env NeverSettles) (init example_page) =
     Done ((init example_page)\<lparr>trace := [Alert ''Please upload or draw a sketch.'']\<rparr>)"
proof -
  have a: "sketchFile (init example_page) = None" and b: "\<not> hasDrawn (init example_page)"
    by (simp_all add: page_defs ui_defs)
  show ?thesis
    using a b generate_without_sketch [OF a b, of "example_env NeverSettles"]
    by (simp add: page_defs ui_defs)
qed

section \<open>The request\<close>

text \<open>
  C9. Every request that a run of the handler submits has the parts, in this order: the
  sketch image part (the encoding of the uploaded sketch file, or of the canvas when
  there is none: the payload after the comma of the data URL, with the file's mime type
  or \<open>image/png\<close>), then, if and only if a model file exists at step 3, the image part
  that encodes that model file, then one text part, the only part with text. The text is
  the template of lines 212-219, written out below: it holds \<open>the uploaded model\<close> when a
  model file exists and \<open>a\<close>, the selected preset type and \<open>model\<close> otherwise, then
  the description in quotes or, when it is empty, the default phrase, then the realism
  value before the percent sign. The state \<open>s2\<close> in which the prompt is built has the
  control values of the state at the click after the listeners that ran during the file
  reads; a model file exists in it exactly when one existed at step 3.
\<close>

theorem request_parts_order:
  assumes "GenerateContent ps \<in> set (new_effects s (final_state (handleGenerateClick en s)))"
  shows "\<exists>sk s2 txt.
     build_parts en (set_loading_state s) = Next ps s2 \<and>
     inputs s2 =
       run_ui ((if sketchFile s = None then [] else during_sketch_read en) @
               (if modelFile s2 = None then [] else during_model_read en)) (inputs s) \<and>
     (case sketchFile s of
        Some f \<Rightarrow>
          fileToGenerativePart f = Fulfilled sk \<and>
          (\<exists>u. file_dataURL f = Some u \<and>
             sk = \<lparr>inlineData = Some \<lparr>data = second (split CHR '','' u),
                                       mimeType = Some (file_type f)\<rparr>,
                   part_text = None\<rparr>)
      | None \<Rightarrow>
          sk = canvasToGenerativePart (toDataURL en (raster s)) \<and>
          sk = \<lparr>inlineData = Some \<lparr>data = second (split CHR '','' (toDataURL en (raster s))),
                                    mimeType = Some ''image/png''\<rparr>,
                part_text = None\<rparr>) \<and>
     inlineData sk \<noteq> None \<and> part_text sk = None \<and>
     txt =
       \<lparr>inlineData = None,
        part_text = Some
          ([CHR 0x0A] @
           ''          Transform the provided clothing sketch into a hyperrealistic, photorealistic runway photo.'' @
           [CHR 0x0A] @
           ''          Have '' @ (if modelFile s2 = None then ''a '' @ modelTypeValue s2 @ '' model''
              else ''the uploaded model'') @ '' wear this design.'' @
           [CHR 0x0A] @
           ''          Render the fabric, shimmer, style, and other details exactly as described in the following text: '' @
           [CHR 0x22] @ (if designDescriptionValue s2 = [] then ''a stunning fashion design''
               else designDescriptionValue s2) @ [CHR 0x22] @ ''.'' @
           [CHR 0x0A] @
           ''          The realism level must be '' @ realismSliderValue s2 @ ''%.'' @
           [CHR 0x0A] @
           ''          Ensure the final image looks like high-quality professional photography, not an AI-generated image.'' @
           [CHR 0x0A] @
           ''          The output must be a single, cohesive, photorealistic image of the new design on the model.'' @
           [CHR 0x0A] @
           ''        '')\<rparr> \<and>
     (case modelFile s2 of
        None \<Rightarrow>
          modelFile (run_ui (if sketchFile s = None then [] else during_sketch_read en) s) = None \<and>
          ps = [sk, txt]
      | Some g \<Rightarrow>
          (\<exists>g3 u mp.
             modelFile (run_ui (if sketchFile s = None then [] else during_sketch_read en) s) = Some g3 \<and>
             file_dataURL g3 = Some u \<and>
             fileToGenerativePart g3 = Fulfilled mp \<and>
             mp = \<lparr>inlineData = Some \<lparr>data = second (split CHR '','' u),
                                       mimeType = Some (file_type g3)\<rparr>,
                   part_text = None\<rparr> \<and>
             inlineData mp \<noteq> None \<and> part_text mp = None \<and>
             ps = [sk, mp, txt]))"
proof -
  let ?esA = "if sketchFile s = None then [] else during_sketch_read en"
  from request_submitted [OF assms] obtain s2 where
    pre: "sketchFile s \<noteq> None \<or> hasDrawn s" and
    bp: "build_parts en (set_loading_state s) = Next ps s2"
    by blast
  from submitted_parts [OF assms] bp have
    inp: "inputs s2 =
       run_ui (?esA @ (if modelFile s2 = None then [] else during_model_read en)) (inputs s)"
    by auto
  have pre': "sketchFile (set_loading_state s) \<noteq> None \<or> hasDrawn (set_loading_state s)"
    using pre by simp
  have m3: "modelFile (run_ui ?esA (set_loading_state s)) = modelFile (run_ui ?esA s)"
    using modelFile_run_ui_inputs [of ?esA "set_loading_state s"]
          modelFile_run_ui_inputs [of ?esA s] by simp
  from build_parts_full [OF bp pre'] obtain sk where
    sk': "case sketchFile (set_loading_state s) of
           Some f \<Rightarrow> fileToGenerativePart f = Fulfilled sk
         | None \<Rightarrow> sk = canvasToGenerativePart (toDataURL en (raster (set_loading_state s)))" and
    ps': "case modelFile (run_ui (if sketchFile (set_loading_state s) = None then []
                                  else during_sketch_read en) (set_loading_state s)) of
        None \<Rightarrow> modelFile s2 = None \<and> ps = [sk, text_part s2]
      | Some g \<Rightarrow>
          modelFile s2 \<noteq> None \<and>
          (\<exists>mp. fileToGenerativePart g = Fulfilled mp \<and> ps = [sk, mp, text_part s2])"
    by blast
  have sk: "case sketchFile s of
           Some f \<Rightarrow> fileToGenerativePart f = Fulfilled sk
         | None \<Rightarrow> sk = canvasToGenerativePart (toDataURL en (raster s))"
    using sk' by (simp cong: option.case_cong)
  have ps: "case modelFile (run_ui ?esA s) of
        None \<Rightarrow> modelFile s2 = None \<and> ps = [sk, text_part s2]
      | Some g \<Rightarrow>
          modelFile s2 \<noteq> None \<and>
          (\<exists>mp. fileToGenerativePart g = Fulfilled mp \<and> ps = [sk, mp, text_part s2])"
    using ps' m3 by simp
  have skc: "case sketchFile s of
        Some f \<Rightarrow>
          fileToGenerativePart f = Fulfilled sk \<and>
          (\<exists>u. file_dataURL f = Some u \<and>
             sk = \<lparr>inlineData = Some \<lparr>data = second (split CHR '','' u),
                                       mimeType = Some (file_type f)\<rparr>,
                   part_text = None\<rparr>)
      | None \<Rightarrow>
          sk = canvasToGenerativePart (toDataURL en (raster s)) \<and>
          sk = \<lparr>inlineData = Some \<lparr>data = second (split CHR '','' (toDataURL en (raster s))),
                                    mimeType = Some ''image/png''\<rparr>,
                part_text = None\<rparr>"
  proof (cases "sketchFile s")
    case None
    with sk show ?thesis by (simp add: canvasToGenerativePart_def)
  next
    case (Some f)
    with sk fileToGenerativePart_Fulfilled [of f sk] show ?thesis by simp
  qed
  have img: "inlineData sk \<noteq> None \<and> part_text sk = None"
    using sk fileToGenerativePart_image canvasToGenerativePart_image
    by (cases "sketchFile s") auto
  have parts: "case modelFile s2 of
        None \<Rightarrow> modelFile (run_ui ?esA s) = None \<and> ps = [sk, text_part s2]
      | Some g \<Rightarrow>
          (\<exists>g3 u mp.
             modelFile (run_ui ?esA s) = Some g3 \<and>
             file_dataURL g3 = Some u \<and>
             fileToGenerativePart g3 = Fulfilled mp \<and>
             mp = \<lparr>inlineData = Some \<lparr>data = second (split CHR '','' u),
                                       mimeType = Some (file_type g3)\<rparr>,
                   part_text = None\<rparr> \<and>
             inlineData mp \<noteq> None \<and> part_text mp = None \<and>
             ps = [sk, mp, text_part s2])"
  proof (cases "modelFile (run_ui ?esA s)")
    case None
    with ps show ?thesis by simp
  next
    case (Some g3)
    with ps obtain mp where n: "modelFile s2 \<noteq> None" and
      mp: "fileToGenerativePart g3 = Fulfilled mp" "ps = [sk, mp, text_part s2]"
      by auto
    from fileToGenerativePart_Fulfilled [OF mp(1)] obtain u where
      u: "file_dataURL g3 = Some u"
         "mp = \<lparr>inlineData = Some \<lparr>data = second (split CHR '','' u),
                                       mimeType = Some (file_type g3)\<rparr>,
               part_text = None\<rparr>"
      by blast
    from n obtain g where g: "modelFile s2 = Some g" by auto
    have "\<exists>g3 u mp.
             modelFile (run_ui ?esA s) = Some g3 \<and>
             file_dataURL g3 = Some u \<and>
             fileToGenerativePart g3 = Fulfilled mp \<and>
             mp = \<lparr>inlineData = Some \<lparr>data = second (split CHR '','' u),
                                       mimeType = Some (file_type g3)\<rparr>,
                   part_text = None\<rparr> \<and>
             inlineData mp \<noteq> None \<and> part_text mp = None \<and>
             ps = [sk, mp, text_part s2]"
      using Some u mp fileToGenerativePart_image [OF mp(1)] by blast
    with g show ?thesis by simp
  qed
  show ?thesis
    apply (rule exI [of _ sk], rule exI [of _ s2], rule exI [of _ "text_part s2"])
    apply (intro conjI)
    apply (rule bp)
    apply (rule inp)
    apply (rule skc)
    apply (rule img [THEN conjunct1])
    apply (rule img [THEN conjunct2])
    apply (rule text_part_literal)
    apply (rule parts)
    done
qed

theorem request_parts_order_witness:
  "GenerateContent
       [\<lparr>inlineData = Some \<lparr>data = Some ''DDDD'', mimeType = Some ''image/png''\<rparr>, part_text = None\<rparr>,
        \<lparr>inlineData = Some \<lparr>data = Some ''BBBB'', mimeType = Some ''image/jpeg''\<rparr>, part_text = None\<rparr>,
        \<lparr>inlineData = None,
         part_text = Some
            ([CHR 0x0A] @
             ''          Transform the provided clothing sketch into a hyperrealistic, photorealistic runway photo.'' @
             [CHR 0x0A] @
             ''          Have '' @ ''the uploaded model'' @ '' wear this design.'' @
             [CHR 0x0A] @
             ''          Render the fabric, shimmer, style, and other details exactly as described in the following text: '' @
             [CHR 0x22] @ ''red silk gown'' @ [CHR 0x22] @ ''.'' @
             [CHR 0x0A] @
             ''          The realism level must be '' @ ''50'' @ ''%.'' @
             [CHR 0x0A] @
             ''          Ensure the final image looks like high-quality professional photography, not an AI-generated image.'' @
             [CHR 0x0A] @
             ''          The output must be a single, cohesive, photorealistic image of the new design on the model.'' @
             [CHR 0x0A] @
             ''        '')\<rparr>]
     \<in> set (new_effects model_page
              (final_state (handleGenerateClick (example_env (Rejected ''offline'')) model_page))) \<and>
   (\<exists>s2. build_parts (example_env (Rejected ''offline'')) (set_loading_state model_page) =
       Next [\<lparr>inlineData = Some \<lparr>data = Some ''DDDD'', mimeType = Some ''image/png''\<rparr>, part_text = None\<rparr>,
        \<lparr>inlineData = Some \<lparr>data = Some ''BBBB'', mimeType = Some ''image/jpeg''\<rparr>, part_text = None\<rparr>,
        \<lparr>inlineData = None,
         part_text = Some
            ([CHR 0x0A] @
             ''          Transform the provided clothing sketch into a hyperrealistic, photorealistic runway photo.'' @
             [CHR 0x0A] @
             ''          Have '' @ ''the uploaded model'' @ '' wear this design.'' @
             [CHR 0x0A] @
             ''          Render the fabric, shimmer, style, and other details exactly as described in the following text: '' @
             [CHR 0x22] @ ''red silk gown'' @ [CHR 0x22] @ ''.'' @
             [CHR 0x0A] @
             ''          The realism level must be '' @ ''50'' @ ''%.'' @
             [CHR 0x0A] @
             ''          Ensure the final image looks like high-quality professional photography, not an AI-generated image.'' @
             [CHR 0x0A] @
             ''          The output must be a single, cohesive, photorealistic image of the new design on the model.'' @
             [CHR 0x0A] @
             ''        '')\<rparr>] s2 \<and>
       modelFile s2 = Some model_jpg \<and> designDescriptionValue s2 = ''red silk gown'' \<and>
       realismSliderValue s2 = ''50'')"
proof -
  let ?ps = "[\<lparr>inlineData = Some \<lparr>data = Some ''DDDD'', mimeType = Some ''image/png''\<rparr>, part_text = None\<rparr>,
        \<lparr>inlineData = Some \<lparr>data = Some ''BBBB'', mimeType = Some ''image/jpeg''\<rparr>, part_text = None\<rparr>,
        \<lparr>inlineData = None,
         part_text = Some
            ([CHR 0x0A] @
             ''          Transform the provided clothing sketch into a hyperrealistic, photorealistic runway photo.'' @
             [CHR 0x0A] @
             ''          Have '' @ ''the uploaded model'' @ '' wear this design.'' @
             [CHR 0x0A] @
             ''          Render the fabric, shimmer, style, and other details exactly as described in the following text: '' @
             [CHR 0x22] @ ''red silk gown'' @ [CHR 0x22] @ ''.'' @
             [CHR 0x0A] @
             ''          The realism level must be '' @ ''50'' @ ''%.'' @
             [CHR 0x0A] @
             ''          Ensure the final image looks like high-quality professional photography, not an AI-generated image.'' @
             [CHR 0x0A] @
             ''          The output must be a single, cohesive, photorealistic image of the new design on the model.'' @
             [CHR 0x0A] @
             ''        '')\<rparr>]"
  have h: "GenerateContent ?ps
     \<in> set (new_effects model_page
              (final_state (handleGenerateClick (example_env (Rejected ''offline'')) model_page)))"
    by (simp add: model_page_def page_defs model_jpg_def ui_defs gen_defs textPrompt_def)
  from request_parts_order [OF h] obtain s2 where
    bp: "build_parts (example_env (Rejected ''offline'')) (set_loading_state model_page) = Next ?ps s2"
    by blast
  have "modelFile s2 = Some model_jpg \<and> designDescriptionValue s2 = ''red silk gown'' \<and>
       realismSliderValue s2 = ''50''"
    using bp by (auto simp add: model_page_def page_defs model_jpg_def ui_defs gen_defs)
  with h bp show ?thesis by blast
qed

text \<open>
  C7. When both an uploaded sketch file and a drawn path exist at the click, the first
  part of a submitted request is the encoding of the file; and the canvas is encoded
  (\<open>toDataURL\<close> is called) only in a run that starts with no uploaded sketch file.
\<close>

theorem uploaded_sketch_takes_priority:
  "(sketchFile s = Some f \<and> hasDrawn s \<and>
    GenerateContent ps \<in> set (new_effects s (final_state (handleGenerateClick en s)))
      \<longrightarrow> fileToGenerativePart f = Fulfilled (hd ps)) \<and>
   (ToDataURL \<in> set (new_effects s (final_state (handleGenerateClick en s)))
      \<longrightarrow> sketchFile s = None)"
proof (intro conjI impI)
  assume a: "sketchFile s = Some f \<and> hasDrawn s \<and>
    GenerateContent ps \<in> set (new_effects s (final_state (handleGenerateClick en s)))"
  then obtain sk s2 where
    sk: "case sketchFile s of
           Some f \<Rightarrow> fileToGenerativePart f = Fulfilled sk
         | None \<Rightarrow> sk = canvasToGenerativePart (toDataURL en (raster s))" and
    ps: "case modelFile s2 of
           None \<Rightarrow> ps = [sk, text_part s2]
         | Some g \<Rightarrow> \<exists>g' mp. fileToGenerativePart g' = Fulfilled mp \<and> ps = [sk, mp, text_part s2]"
    using submitted_parts [of ps s en] by blast
  have "hd ps = sk"
    using ps by (cases "modelFile s2") auto
  with sk a show "fileToGenerativePart f = Fulfilled (hd ps)" by simp
next
  assume "ToDataURL \<in> set (new_effects s (final_state (handleGenerateClick en s)))"
  then have m: "ToDataURL \<in> set (run_effects en s)"
    by (simp add: new_effects_handleGenerateClick)
  show "sketchFile s = None"
  proof (rule ccontr)
    assume n: "sketchFile s \<noteq> None"
    then have "ToDataURL \<notin> set (build_effects en (set_loading_state s))"
      by (auto simp add: build_effects_def sketch_effects_def model_effects_def
            split: step.splits option.splits)
    with m n show False
      by (auto simp add: run_effects_def busy_effects_def failure_effects_def
            after_build_no_encoding split: option.splits)
  qed
qed

theorem uploaded_sketch_takes_priority_witness:
  "(sketchFile both_page = Some sketch_png \<and> hasDrawn both_page \<and>
    GenerateContent
       [\<lparr>inlineData = Some \<lparr>data = Some ''AAAA'', mimeType = Some ''image/png''\<rparr>, part_text = None\<rparr>,
        \<lparr>inlineData = None,
         part_text = Some (textPrompt ''a female model'' ''a stunning fashion design'' ''50'')\<rparr>]
      \<in> set (new_effects both_page
              (final_state (handleGenerateClick (example_env (Rejected ''offline'')) both_page)))) \<and>
   fileToGenerativePart sketch_png =
     Fulfilled \<lparr>inlineData = Some \<lparr>data = Some ''AAAA'', mimeType = Some ''image/png''\<rparr>, part_text = None\<rparr> \<and>
   ToDataURL \<in> set (new_effects drawn_page
              (final_state (handleGenerateClick (example_env (Rejected ''offline'')) drawn_page))) \<and>
   sketchFile drawn_page = None"
proof -
  have h: "sketchFile both_page = Some sketch_png \<and> hasDrawn both_page \<and>
    GenerateContent
       [\<lparr>inlineData = Some \<lparr>data = Some ''AAAA'', mimeType = Some ''image/png''\<rparr>, part_text = None\<rparr>,
        \<lparr>inlineData = None,
         part_text = Some (textPrompt ''a female model'' ''a stunning fashion design'' ''50'')\<rparr>]
      \<in> set (new_effects both_page
              (final_state (handleGenerateClick (example_env (Rejected ''offline'')) both_page)))"
    by (simp add: both_page_def page_defs sketch_png_def ui_defs gen_defs)
  have c: "ToDataURL \<in> set (new_effects drawn_page
              (final_state (handleGenerateClick (example_env (Rejected ''offline'')) drawn_page)))"
    by (simp add: page_defs sketch_png_def ui_defs gen_defs)
  from uploaded_sketch_takes_priority [of both_page sketch_png _ "example_env (Rejected ''offline'')" ] h
  have 1: "fileToGenerativePart sketch_png =
     Fulfilled \<lparr>inlineData = Some \<lparr>data = Some ''AAAA'', mimeType = Some ''image/png''\<rparr>, part_text = None\<rparr>"
    by fastforce
  from uploaded_sketch_takes_priority [of drawn_page _ _ "example_env (Rejected ''offline'')"] c
  have 2: "sketchFile drawn_page = None" by blast
  from h c 1 2 show ?thesis by blast
qed

section \<open>The response\<close>

text \<open>
  C5. When a request has been submitted and the call is fulfilled with a response, the
  handler completes. If some part of the response carries inline image data, the first
  such part is the result whatever follows it: the result image gets its data URL and is
  shown, and the placeholder stays hidden with its content untouched. If no part carries
  inline image data, the no-image error is raised and logged, the placeholder is shown
  with the error paragraph that quotes the message \<open>API response did not contain an
  image.\<close>, and the result image stays hidden.
\<close>

theorem first_image_part_is_result:
  assumes sub: "GenerateContent ps \<in> set (new_effects s (final_state (handleGenerateClick en s)))"
      and api: "api_result en = Fulfilled r"
  shows "\<exists>s'. handleGenerateClick en s = Done s' \<and>
     (\<forall>pre p post b.
         response_parts r = pre @ p # post \<and> list_all (\<lambda>q. inlineData q = None) pre \<and>
         inlineData p = Some b \<longrightarrow>
           resultImageSrc s' = ''data:'' @ js_string (mimeType b) @ '';base64,'' @ js_string (data b) \<and>
           \<not> resultImageHidden s' \<and> placeholderHidden s' \<and>
           placeholderHTML s' = placeholderHTML s) \<and>
     (list_all (\<lambda>q. inlineData q = None) (response_parts r) \<longrightarrow>
           resultImageHidden s' \<and> resultImageSrc s' = resultImageSrc s \<and>
           \<not> placeholderHidden s' \<and>
           placeholderHTML s' =
             ''<p style='' @ [CHR 0x22] @ ''color: red;'' @ [CHR 0x22] @
             ''>An error occurred. Please try again.<br><small>'' @
             ''API response did not contain an image.'' @ ''</small></p>'' \<and>
           ConsoleError ''API response did not contain an image.'' \<in> set (new_effects s s'))"
proof -
  from request_submitted [OF sub] obtain s2 where
    pre: "sketchFile s \<noteq> None \<or> hasDrawn s" and cl: "client_error en = None" and
    bp: "build_parts en (set_loading_state s) = Next ps s2"
    by blast
  define s3 where "s3 = run_ui (during_api_call en) (emit Await (emit (GenerateContent ps) s2))"
  have d2: "placeholderHidden s2" "resultImageHidden s2" "resultImageSrc s2 = resultImageSrc s"
    "placeholderHTML s2 = placeholderHTML s"
    using build_parts_display [of en "set_loading_state s"] bp
    by (simp_all add: set_loading_state_display)
  have d3: "placeholderHidden s3" "resultImageHidden s3" "resultImageSrc s3 = resultImageSrc s"
    "placeholderHTML s3 = placeholderHTML s"
    using d2 by (simp_all add: s3_def)
  have t3: "trace s3 = trace s @ busy_effects @ build_effects en (set_loading_state s) @
              [GenerateContent ps, Await]"
    using trace_build_parts [of en "set_loading_state s"] bp
    by (simp add: s3_def trace_set_loading_state)
  obtain found s4 where sc: "scan_parts (response_parts r) s3 = (found, s4)"
    by (cases "scan_parts (response_parts r) s3")
  define s' where "s' = (if found then finally_block s4
      else finally_block (catch_block ''API response did not contain an image.'' s4))"
  have fin: "handleGenerateClick en s = Done s'"
    unfolding handleGenerateClick_submit [OF pre cl bp] s'_def
    using api sc by (cases found) (simp_all add: s3_def [symmetric])
  have img: "resultImageSrc s' = ''data:'' @ js_string (mimeType b) @ '';base64,'' @ js_string (data b) \<and>
           \<not> resultImageHidden s' \<and> placeholderHidden s' \<and>
           placeholderHTML s' = placeholderHTML s"
    if "response_parts r = pre @ p # post" "list_all (\<lambda>q. inlineData q = None) pre"
       "inlineData p = Some b" for pre p post b
  proof -
    have "scan_parts (response_parts r) s3 =
      (True, set_hidden ResultImage False
         (s3\<lparr>resultImageSrc := ''data:'' @ js_string (mimeType b) @ '';base64,'' @ js_string (data b)\<rparr>))"
      unfolding that(1) using that(2,3) by (rule scan_parts_found)
    with sc have f: "found" and s4: "s4 = set_hidden ResultImage False
         (s3\<lparr>resultImageSrc := ''data:'' @ js_string (mimeType b) @ '';base64,'' @ js_string (data b)\<rparr>)"
      by simp_all
    show ?thesis
      using f d3 by (simp add: s'_def s4 finally_block_def set_generate_disabled_def emit_def)
  qed
  have none: "resultImageHidden s' \<and> resultImageSrc s' = resultImageSrc s \<and>
           \<not> placeholderHidden s' \<and>
           placeholderHTML s' =
             ''<p style='' @ [CHR 0x22] @ ''color: red;'' @ [CHR 0x22] @
             ''>An error occurred. Please try again.<br><small>'' @
             ''API response did not contain an image.'' @ ''</small></p>'' \<and>
           ConsoleError ''API response did not contain an image.'' \<in> set (new_effects s s')"
    if "list_all (\<lambda>q. inlineData q = None) (response_parts r)"
  proof -
    have "scan_parts (response_parts r) s3 = (False, s3)"
      using that by (rule scan_parts_none)
    with sc have f: "\<not> found" and s4: "s4 = s3"
      by simp_all
    have "trace s' = trace s @ busy_effects @ build_effects en (set_loading_state s) @
             [GenerateContent ps, Await,
              ConsoleError ''API response did not contain an image.'',
              SetHidden Placeholder False, SetHidden Loading True, SetGenerateDisabled False]"
      using f t3
      by (simp add: s'_def s4 finally_block_def catch_block_def set_generate_disabled_def emit_def)
    then have "new_effects s s' = busy_effects @ build_effects en (set_loading_state s) @
             [GenerateContent ps, Await,
              ConsoleError ''API response did not contain an image.'',
              SetHidden Placeholder False, SetHidden Loading True, SetGenerateDisabled False]"
      by (rule new_effects_append)
    then show ?thesis
      using f d3
      by (simp add: s'_def s4 finally_block_def catch_block_def set_generate_disabled_def emit_def
            error_html_def)
  qed
  from fin img none show ?thesis by blast
qed

theorem first_image_part_is_result_witness:
  "GenerateContent
       [\<lparr>inlineData = Some \<lparr>data = Some ''DDDD'', mimeType = Some ''image/png''\<rparr>, part_text = None\<rparr>,
        \<lparr>inlineData = None,
         part_text = Some (textPrompt ''a female model'' ''a stunning fashion design'' ''50'')\<rparr>]
     \<in> set (new_effects drawn_page (final_state (handleGenerateClick
           (example_env (Fulfilled (response_of [caption_part, image_part]))) drawn_page))) \<and>
   (\<exists>s'. handleGenerateClick
           (example_env (Fulfilled (response_of [caption_part, image_part]))) drawn_page = Done s' \<and>
         resultImageSrc s' = ''data:image/png;base64,CCCC'' \<and> \<not> resultImageHidden s') \<and>
   GenerateContent
       [\<lparr>inlineData = Some \<lparr>data = Some ''DDDD'', mimeType = Some ''image/png''\<rparr>, part_text = None\<rparr>,
        \<lparr>inlineData = None,
         part_text = Some (textPrompt ''a female model'' ''a stunning fashion design'' ''50'')\<rparr>]
     \<in> set (new_effects drawn_page (final_state (handleGenerateClick
           (example_env (Fulfilled (response_of [caption_part]))) drawn_page))) \<and>
   (\<exists>s'. handleGenerateClick
           (example_env (Fulfilled (response_of [caption_part]))) drawn_page = Done s' \<and>
         resultImageHidden s' \<and> \<not> placeholderHidden s' \<and>
         placeholderHTML s' =
             ''<p style='' @ [CHR 0x22] @ ''color: red;'' @ [CHR 0x22] @
             ''>An error occurred. Please try again.<br><small>'' @
             ''API response did not contain an image.'' @ ''</small></p>'')"
proof -
  let ?ps = "[\<lparr>inlineData = Some \<lparr>data = Some ''DDDD'', mimeType = Some ''image/png''\<rparr>, part_text = None\<rparr>,
        \<lparr>inlineData = None,
         part_text = Some (textPrompt ''a female model'' ''a stunning fashion design'' ''50'')\<rparr>]"
  let ?e1 = "example_env (Fulfilled (response_of [caption_part, image_part]))"
  let ?e2 = "example_env (Fulfilled (response_of [caption_part]))"
  have h1: "GenerateContent ?ps \<in> set (new_effects drawn_page (final_state (handleGenerateClick ?e1 drawn_page)))"
    by (simp add: page_defs response_of_def caption_part_def image_part_def ui_defs gen_defs)
  have a1: "api_result ?e1 = Fulfilled (response_of [caption_part, image_part])"
    by (simp add: example_env_def)
  have r1: "response_parts (response_of [caption_part, image_part]) = [caption_part] @ image_part # [] \<and>
      list_all (\<lambda>q. inlineData q = None) [caption_part] \<and>
      inlineData image_part = Some \<lparr>data = Some ''CCCC'', mimeType = Some ''image/png''\<rparr>"
    by (simp add: response_parts_def response_of_def caption_part_def image_part_def)
  from first_image_part_is_result [OF h1 a1] obtain s1 where
    d1: "handleGenerateClick ?e1 drawn_page = Done s1" and
    i1: "\<forall>pre p post b.
         response_parts (response_of [caption_part, image_part]) = pre @ p # post \<and>
         list_all (\<lambda>q. inlineData q = None) pre \<and> inlineData p = Some b \<longrightarrow>
           resultImageSrc s1 = ''data:'' @ js_string (mimeType b) @ '';base64,'' @ js_string (data b) \<and>
           \<not> resultImageHidden s1 \<and> placeholderHidden s1 \<and>
           placeholderHTML s1 = placeholderHTML drawn_page"
    by blast
  note c1 = i1 [rule_format, OF r1]
  have h2: "GenerateContent ?ps \<in> set (new_effects drawn_page (final_state (handleGenerateClick ?e2 drawn_page)))"
    by (simp add: page_defs response_of_def caption_part_def image_part_def ui_defs gen_defs)
  have a2: "api_result ?e2 = Fulfilled (response_of [caption_part])"
    by (simp add: example_env_def)
  have r2: "list_all (\<lambda>q. inlineData q = None) (response_parts (response_of [caption_part]))"
    by (simp add: response_parts_def response_of_def caption_part_def)
  from first_image_part_is_result [OF h2 a2] obtain s2 where
    d2: "handleGenerateClick ?e2 drawn_page = Done s2" and
    i2: "list_all (\<lambda>q. inlineData q = None) (response_parts (response_of [caption_part])) \<longrightarrow>
           resultImageHidden s2 \<and> resultImageSrc s2 = resultImageSrc drawn_page \<and>
           \<not> placeholderHidden s2 \<and>
           placeholderHTML s2 =
             ''<p style='' @ [CHR 0x22] @ ''color: red;'' @ [CHR 0x22] @
             ''>An error occurred. Please try again.<br><small>'' @
             ''API response did not contain an image.'' @ ''</small></p>'' \<and>
           ConsoleError ''API response did not contain an image.'' \<in> set (new_effects drawn_page s2)"
    by blast
  note c2 = i2 [rule_format, OF r2]
  from d1 c1 have "\<exists>s'. handleGenerateClick ?e1 drawn_page = Done s' \<and>
         resultImageSrc s' = ''data:image/png;base64,CCCC'' \<and> \<not> resultImageHidden s'"
    by (simp add: js_string_def)
  moreover from d2 c2 have "\<exists>s'. handleGenerateClick ?e2 drawn_page = Done s' \<and>
         resultImageHidden s' \<and> \<not> placeholderHidden s' \<and>
         placeholderHTML s' =
             ''<p style='' @ [CHR 0x22] @ ''color: red;'' @ [CHR 0x22] @
             ''>An error occurred. Please try again.<br><small>'' @
             ''API response did not contain an image.'' @ ''</small></p>''"
    by simp
  ultimately show ?thesis using h1 h2 by (intro conjI)
qed

section \<open>A file that cannot be read\<close>

text \<open>
  C3. The claim is that a failed read makes \<open>fileToGenerativePart\<close> reject and that the
  generation operation shows the failure. For a file whose read fails the promise never
  settles (the \<open>onloadend\<close> callback throws before it calls \<open>resolve\<close>, and nothing calls
  a \<open>reject\<close>). With a drawn sketch and the unreadable \<open>gone.jpg\<close> as model file, the
  handler stays at the \<open>await\<close> of the model part: nothing is logged, the placeholder
  stays hidden without an error text, and no request is sent.
\<close>

theorem unreadable_file_never_surfaces:
  "fileToGenerativePart unreadable_jpg = NeverSettles \<and>
   (case handleGenerateClick (example_env (Fulfilled (response_of [image_part]))) unreadable_model_page of
      Done s' \<Rightarrow> False
    | Hung s' \<Rightarrow>
        placeholderHidden s' \<and>
        placeholderHTML s' = placeholderHTML unreadable_model_page \<and>
        trace s' =
          [SetGenerateDisabled True, SetHidden Placeholder True, SetHidden ResultImage True,
           SetHidden Loading False, ToDataURL, ReadAsDataURL unreadable_jpg, Await])"
  by (simp add: page_defs unreadable_model_page_def unreadable_jpg_def response_of_def
        image_part_def ui_defs gen_defs)

text \<open>
  C6. The claim is that on every completion path, encode failure included, the progress
  indicator is hidden and the trigger is enabled again. In the same run as above (an
  encode failure) the \<open>finally\<close> block is never reached: the trigger stays disabled and
  the progress indicator shown. On the runs that do settle the cleanup happens once
  (\<open>settled_run_cleans_up\<close>), and the busy state is entered before the first \<open>await\<close>
  (\<open>trace_handleGenerateClick\<close>).
\<close>

theorem unreadable_file_keeps_busy_state:
  "(case handleGenerateClick (example_env (Fulfilled (response_of [image_part]))) unreadable_model_page of
      Done s' \<Rightarrow> False
    | Hung s' \<Rightarrow>
        generateBtnDisabled s' \<and> \<not> loadingHidden s' \<and>
        SetGenerateDisabled False \<notin> set (trace s') \<and>
        SetHidden Loading True \<notin> set (trace s'))"
  by (simp add: page_defs unreadable_model_page_def unreadable_jpg_def response_of_def
        image_part_def ui_defs gen_defs)

section \<open>The model-reference file over a session\<close>

text \<open>
  C10. From the state that the model-upload listener leaves when a file was selected,
  whatever events follow (the listeners, a cancelled file dialog, runs of the generation
  handler), \<open>modelFile\<close> is never null again and the preset selector stays disabled. The
  text part, the last part of every request submitted from then on, is the template of
  lines 212-219 with \<open>Have the uploaded model wear this design.\<close> as its second line,
  and it is the prompt of no preset type: it differs from the template filled with
  \<open>a\<close>, any type and \<open>model\<close>, whatever the description and the realism value.
\<close>

theorem model_upload_is_permanent:
  "modelFile (run es (handle_ui (ModelUploadChange (f # fs)) s)) \<noteq> None \<and>
   modelTypeDisabled (run es (handle_ui (ModelUploadChange (f # fs)) s)) \<and>
   (\<forall>ps. GenerateContent ps \<in> set (new_effects (handle_ui (ModelUploadChange (f # fs)) s)
                                      (run es (handle_ui (ModelUploadChange (f # fs)) s)))
      \<longrightarrow>
        (\<exists>d r. last ps =
           \<lparr>inlineData = None,
            part_text = Some
              ([CHR 0x0A] @
                   ''          Transform the provided clothing sketch into a hyperrealistic, photorealistic runway photo.'' @
                   [CHR 0x0A] @
                   ''          Have '' @ ''the uploaded model'' @ '' wear this design.'' @
                   [CHR 0x0A] @
                   ''          Render the fabric, shimmer, style, and other details exactly as described in the following text: '' @
                   [CHR 0x22] @ d @ [CHR 0x22] @ ''.'' @
                   [CHR 0x0A] @
                   ''          The realism level must be '' @ r @ ''%.'' @
                   [CHR 0x0A] @
                   ''          Ensure the final image looks like high-quality professional photography, not an AI-generated image.'' @
                   [CHR 0x0A] @
                   ''          The output must be a single, cohesive, photorealistic image of the new design on the model.'' @
                   [CHR 0x0A] @
                   ''        '')\<rparr>) \<and>
        (\<forall>t d r. last ps \<noteq>
           \<lparr>inlineData = None,
            part_text = Some
              ([CHR 0x0A] @
                   ''          Transform the provided clothing sketch into a hyperrealistic, photorealistic runway photo.'' @
                   [CHR 0x0A] @
                   ''          Have '' @ (''a '' @ t @ '' model'') @ '' wear this design.'' @
                   [CHR 0x0A] @
                   ''          Render the fabric, shimmer, style, and other details exactly as described in the following text: '' @
                   [CHR 0x22] @ d @ [CHR 0x22] @ ''.'' @
                   [CHR 0x0A] @
                   ''          The realism level must be '' @ r @ ''%.'' @
                   [CHR 0x0A] @
                   ''          Ensure the final image looks like high-quality professional photography, not an AI-generated image.'' @
                   [CHR 0x0A] @
                   ''          The output must be a single, cohesive, photorealistic image of the new design on the model.'' @
                   [CHR 0x0A] @
                   ''        '')\<rparr>))"
proof -
  define s1 where "s1 = handle_ui (ModelUploadChange (f # fs)) s"
  have up: "modelFile s1 \<noteq> None \<and> modelTypeDisabled s1"
    by (simp add: s1_def ui_defs)
  have inv: "modelFile (run es s1) \<noteq> None \<and> modelTypeDisabled (run es s1) \<and>
     (\<forall>ps. GenerateContent ps \<in> set (new_effects s1 (run es s1))
        \<longrightarrow> (\<exists>d r. last ps =
               \<lparr>inlineData = None, part_text = Some (textPrompt ''the uploaded model'' d r)\<rparr>))"
    using up
  proof (induction es arbitrary: s1)
    case Nil
    then show ?case by (simp add: new_effects_def)
  next
    case (Cons e es)
    note step = handle_model_slot [OF Cons.prems, of e]
    note ih = Cons.IH [OF step]
    have "\<exists>d r. last ps =
               \<lparr>inlineData = None, part_text = Some (textPrompt ''the uploaded model'' d r)\<rparr>"
      if "GenerateContent ps \<in> set (new_effects s1 (run (e # es) s1))" for ps
    proof -
      from that have "GenerateContent ps \<in> set (new_effects s1 (handle e s1)) \<or>
          GenerateContent ps \<in> set (new_effects (handle e s1) (run es (handle e s1)))"
        unfolding new_effects_run_Cons by simp
      then show ?thesis
      proof
        assume "GenerateContent ps \<in> set (new_effects s1 (handle e s1))"
        with Cons.prems show ?thesis
          by (intro uploaded_model_request [of s1 ps e]) simp_all
      next
        assume "GenerateContent ps \<in> set (new_effects (handle e s1) (run es (handle e s1)))"
        with ih show ?thesis by blast
      qed
    qed
    with ih show ?case by simp
  qed
  have lit: "(\<exists>d r. last ps =
           \<lparr>inlineData = None,
            part_text = Some
              ([CHR 0x0A] @
                   ''          Transform the provided clothing sketch into a hyperrealistic, photorealistic runway photo.'' @
                   [CHR 0x0A] @
                   ''          Have '' @ ''the uploaded model'' @ '' wear this design.'' @
                   [CHR 0x0A] @
                   ''          Render the fabric, shimmer, style, and other details exactly as described in the following text: '' @
                   [CHR 0x22] @ d @ [CHR 0x22] @ ''.'' @
                   [CHR 0x0A] @
                   ''          The realism level must be '' @ r @ ''%.'' @
                   [CHR 0x0A] @
                   ''          Ensure the final image looks like high-quality professional photography, not an AI-generated image.'' @
                   [CHR 0x0A] @
                   ''          The output must be a single, cohesive, photorealistic image of the new design on the model.'' @
                   [CHR 0x0A] @
                   ''        '')\<rparr>) \<and>
        (\<forall>t d r. last ps \<noteq>
           \<lparr>inlineData = None,
            part_text = Some
              ([CHR 0x0A] @
                   ''          Transform the provided clothing sketch into a hyperrealistic, photorealistic runway photo.'' @
                   [CHR 0x0A] @
                   ''          Have '' @ (''a '' @ t @ '' model'') @ '' wear this design.'' @
                   [CHR 0x0A] @
                   ''          Render the fabric, shimmer, style, and other details exactly as described in the following text: '' @
                   [CHR 0x22] @ d @ [CHR 0x22] @ ''.'' @
                   [CHR 0x0A] @
                   ''          The realism level must be '' @ r @ ''%.'' @
                   [CHR 0x0A] @
                   ''          Ensure the final image looks like high-quality professional photography, not an AI-generated image.'' @
                   [CHR 0x0A] @
                   ''          The output must be a single, cohesive, photorealistic image of the new design on the model.'' @
                   [CHR 0x0A] @
                   ''        '')\<rparr>)"
    if "GenerateContent ps \<in> set (new_effects s1 (run es s1))" for ps
  proof -
    from inv that obtain d0 r0 where
      l: "last ps = \<lparr>inlineData = None, part_text = Some (textPrompt ''the uploaded model'' d0 r0)\<rparr>"
      by blast
    have l': "last ps =
           \<lparr>inlineData = None,
            part_text = Some
              ([CHR 0x0A] @
                   ''          Transform the provided clothing sketch into a hyperrealistic, photorealistic runway photo.'' @
                   [CHR 0x0A] @
                   ''          Have '' @ ''the uploaded model'' @ '' wear this design.'' @
                   [CHR 0x0A] @
                   ''          Render the fabric, shimmer, style, and other details exactly as described in the following text: '' @
                   [CHR 0x22] @ d0 @ [CHR 0x22] @ ''.'' @
                   [CHR 0x0A] @
                   ''          The realism level must be '' @ r0 @ ''%.'' @
                   [CHR 0x0A] @
                   ''          Ensure the final image looks like high-quality professional photography, not an AI-generated image.'' @
                   [CHR 0x0A] @
                   ''          The output must be a single, cohesive, photorealistic image of the new design on the model.'' @
                   [CHR 0x0A] @
                   ''        '')\<rparr>"
      unfolding l by (simp add: textPrompt_def)
    have n: "\<forall>t d r. last ps \<noteq>
           \<lparr>inlineData = None,
            part_text = Some
              ([CHR 0x0A] @
                   ''          Transform the provided clothing sketch into a hyperrealistic, photorealistic runway photo.'' @
                   [CHR 0x0A] @
                   ''          Have '' @ (''a '' @ t @ '' model'') @ '' wear this design.'' @
                   [CHR 0x0A] @
                   ''          Render the fabric, shimmer, style, and other details exactly as described in the following text: '' @
                   [CHR 0x22] @ d @ [CHR 0x22] @ ''.'' @
                   [CHR 0x0A] @
                   ''          The realism level must be '' @ r @ ''%.'' @
                   [CHR 0x0A] @
                   ''          Ensure the final image looks like high-quality professional photography, not an AI-generated image.'' @
                   [CHR 0x0A] @
                   ''          The output must be a single, cohesive, photorealistic image of the new design on the model.'' @
                   [CHR 0x0A] @
                   ''        '')\<rparr>"
      unfolding l' by simp
    from l' n show ?thesis by blast
  qed
  from inv lit show ?thesis
    unfolding s1_def by blast
qed

theorem model_upload_is_permanent_witness:
  "GenerateContent
       [\<lparr>inlineData = Some \<lparr>data = Some ''DDDD'', mimeType = Some ''image/png''\<rparr>, part_text = None\<rparr>,
        \<lparr>inlineData = Some \<lparr>data = Some ''BBBB'', mimeType = Some ''image/jpeg''\<rparr>, part_text = None\<rparr>,
        \<lparr>inlineData = None,
         part_text = Some
            ([CHR 0x0A] @
             ''          Transform the provided clothing sketch into a hyperrealistic, photorealistic runway photo.'' @
             [CHR 0x0A] @
             ''          Have '' @ ''the uploaded model'' @ '' wear this design.'' @
             [CHR 0x0A] @
             ''          Render the fabric, shimmer, style, and other details exactly as described in the following text: '' @
             [CHR 0x22] @ ''red silk gown'' @ [CHR 0x22] @ ''.'' @
             [CHR 0x0A] @
             ''          The realism level must be '' @ ''50'' @ ''%.'' @
             [CHR 0x0A] @
             ''          Ensure the final image looks like high-quality professional photography, not an AI-generated image.'' @
             [CHR 0x0A] @
             ''          The output must be a single, cohesive, photorealistic image of the new design on the model.'' @
             [CHR 0x0A] @
             ''        '')\<rparr>]
     \<in> set (new_effects (handle_ui (ModelUploadChange [model_jpg]) drawn_page)
              (run model_session (handle_ui (ModelUploadChange [model_jpg]) drawn_page))) \<and>
   modelFile (run model_session (handle_ui (ModelUploadChange [model_jpg]) drawn_page)) \<noteq> None \<and>
   modelTypeDisabled (run model_session (handle_ui (ModelUploadChange [model_jpg]) drawn_page)) \<and>
   last
       [\<lparr>inlineData = Some \<lparr>data = Some ''DDDD'', mimeType = Some ''image/png''\<rparr>, part_text = None\<rparr>,
        \<lparr>inlineData = Some \<lparr>data = Some ''BBBB'', mimeType = Some ''image/jpeg''\<rparr>, part_text = None\<rparr>,
        \<lparr>inlineData = None,
         part_text = Some
            ([CHR 0x0A] @
             ''          Transform the provided clothing sketch into a hyperrealistic, photorealistic runway photo.'' @
             [CHR 0x0A] @
             ''          Have '' @ ''the uploaded model'' @ '' wear this design.'' @
             [CHR 0x0A] @
             ''          Render the fabric, shimmer, style, and other details exactly as described in the following text: '' @
             [CHR 0x22] @ ''red silk gown'' @ [CHR 0x22] @ ''.'' @
             [CHR 0x0A] @
             ''          The realism level must be '' @ ''50'' @ ''%.'' @
             [CHR 0x0A] @
             ''          Ensure the final image looks like high-quality professional photography, not an AI-generated image.'' @
             [CHR 0x0A] @
             ''          The output must be a single, cohesive, photorealistic image of the new design on the model.'' @
             [CHR 0x0A] @
             ''        '')\<rparr>] \<noteq>
     \<lparr>inlineData = None,
      part_text = Some
            ([CHR 0x0A] @
             ''          Transform the provided clothing sketch into a hyperrealistic, photorealistic runway photo.'' @
             [CHR 0x0A] @
             ''          Have '' @ ''a female model'' @ '' wear this design.'' @
             [CHR 0x0A] @
             ''          Render the fabric, shimmer, style, and other details exactly as described in the following text: '' @
             [CHR 0x22] @ ''red silk gown'' @ [CHR 0x22] @ ''.'' @
             [CHR 0x0A] @
             ''          The realism level must be '' @ ''50'' @ ''%.'' @
             [CHR 0x0A] @
             ''          Ensure the final image looks like high-quality professional photography, not an AI-generated image.'' @
             [CHR 0x0A] @
             ''          The output must be a single, cohesive, photorealistic image of the new design on the model.'' @
             [CHR 0x0A] @
             ''        '')\<rparr>"
proof -
  let ?ps = "[\<lparr>inlineData = Some \<lparr>data = Some ''DDDD'', mimeType = Some ''image/png''\<rparr>, part_text = None\<rparr>,
        \<lparr>inlineData = Some \<lparr>data = Some ''BBBB'', mimeType = Some ''image/jpeg''\<rparr>, part_text = None\<rparr>,
        \<lparr>inlineData = None,
         part_text = Some
            ([CHR 0x0A] @
             ''          Transform the provided clothing sketch into a hyperrealistic, photorealistic runway photo.'' @
             [CHR 0x0A] @
             ''          Have '' @ ''the uploaded model'' @ '' wear this design.'' @
             [CHR 0x0A] @
             ''          Render the fabric, shimmer, style, and other details exactly as described in the following text: '' @
             [CHR 0x22] @ ''red silk gown'' @ [CHR 0x22] @ ''.'' @
             [CHR 0x0A] @
             ''          The realism level must be '' @ ''50'' @ ''%.'' @
             [CHR 0x0A] @
             ''          Ensure the final image looks like high-quality professional photography, not an AI-generated image.'' @
             [CHR 0x0A] @
             ''          The output must be a single, cohesive, photorealistic image of the new design on the model.'' @
             [CHR 0x0A] @
             ''        '')\<rparr>]"
  have h: "GenerateContent ?ps
     \<in> set (new_effects (handle_ui (ModelUploadChange [model_jpg]) drawn_page)
              (run model_session (handle_ui (ModelUploadChange [model_jpg]) drawn_page)))"
    by (simp add: model_session_def page_defs model_jpg_def ui_defs gen_defs textPrompt_def)
  note t = model_upload_is_permanent [of model_session model_jpg "[]" drawn_page]
  from t have a: "modelFile (run model_session (handle_ui (ModelUploadChange [model_jpg]) drawn_page)) \<noteq> None"
    and b: "modelTypeDisabled (run model_session (handle_ui (ModelUploadChange [model_jpg]) drawn_page))"
    by (rule conjunct1, rule conjunct2 [THEN conjunct1])
  note c = t [THEN conjunct2, THEN conjunct2, rule_format, OF h, THEN conjunct2, rule_format,
    of "''female''" "''red silk gown''" "''50''"]
  from c have c': "last ?ps \<noteq>
     \<lparr>inlineData = None,
      part_text = Some
            ([CHR 0x0A] @
             ''          Transform the provided clothing sketch into a hyperrealistic, photorealistic runway photo.'' @
             [CHR 0x0A] @
             ''          Have '' @ ''a female model'' @ '' wear this design.'' @
             [CHR 0x0A] @
             ''          Render the fabric, shimmer, style, and other details exactly as described in the following text: '' @
             [CHR 0x22] @ ''red silk gown'' @ [CHR 0x22] @ ''.'' @
             [CHR 0x0A] @
             ''          The realism level must be '' @ ''50'' @ ''%.'' @
             [CHR 0x0A] @
             ''          Ensure the final image looks like high-quality professional photography, not an AI-generated image.'' @
             [CHR 0x0A] @
             ''          The output must be a single, cohesive, photorealistic image of the new design on the model.'' @
             [CHR 0x0A] @
             ''        '')\<rparr>"
    by simp
  from h a b c' show ?thesis
    by (intro conjI)
qed

end
